theory Spec2Isabelle
  imports Main "HOL-Library.AList" "HOL-Library.Char_ord" "HOL-Library.List_Lexorder"
begin

section \<open>Values held by the store\<close>

text \<open>
  The Firebase Realtime Database returns JSON. A help request and a knowledge base entry
  are Python dictionaries with string keys and scalar values; the nodes
  \<^verbatim>\<open>/help_requests\<close> and \<^verbatim>\<open>/knowledge_base\<close> are dictionaries whose values are
  such dictionaries, or scalars (\<^verbatim>\<open>create_initial_data\<close> stores
  \<^verbatim>\<open>"initialized": True\<close> and a \<^verbatim>\<open>created_at\<close> string beside the records).
  Dictionaries are association lists read through \<open>map_of\<close>; the list order stands for
  the order in which \<^verbatim>\<open>.items()\<close> and \<^verbatim>\<open>.values()\<close> enumerate.
\<close>

datatype jval = JNull | JBool bool | JInt int | JStr string

type_synonym jdict = "(string \<times> jval) list"

datatype node = Scalar jval | Dict jdict

text \<open>Python exceptions raised on the modelled paths.\<close>

datatype exn = RuntimeError | ValueError | TypeError | KeyError | ValidationError | AttributeError

text \<open>\<^verbatim>\<open>d.get(k)\<close>: the value, or \<^verbatim>\<open>None\<close> when the key is absent.\<close>

definition dict_get :: "jdict \<Rightarrow> string \<Rightarrow> jval" where
  "dict_get d k = (case map_of d k of None \<Rightarrow> JNull | Some v \<Rightarrow> v)"

text \<open>\<^verbatim>\<open>d[k]\<close>: raises \<^verbatim>\<open>KeyError\<close> when the key is absent.\<close>

definition dict_item :: "jdict \<Rightarrow> string \<Rightarrow> exn + jval" where
  "dict_item d k = (case map_of d k of None \<Rightarrow> Inl KeyError | Some v \<Rightarrow> Inr v)"

text \<open>\<^verbatim>\<open>d[k] = v\<close>.\<close>

definition dict_set :: "jdict \<Rightarrow> string \<Rightarrow> jval \<Rightarrow> jdict" where
  "dict_set d k v = AList.update k v d"

text \<open>Python truthiness, as \<^verbatim>\<open>if not data\<close> and \<^verbatim>\<open>if request_data\<close> test it.\<close>

fun truthy_jval :: "jval \<Rightarrow> bool" where
  "truthy_jval JNull = False"
| "truthy_jval (JBool b) = b"
| "truthy_jval (JInt i) = (i \<noteq> 0)"
| "truthy_jval (JStr s) = (s \<noteq> [])"

fun truthy :: "node option \<Rightarrow> bool" where
  "truthy None = False"
| "truthy (Some (Scalar v)) = truthy_jval v"
| "truthy (Some (Dict d)) = (d \<noteq> [])"

subsection \<open>Enumerations of \<^verbatim>\<open>app/models/firebase_models.py\<close>\<close>

abbreviation PENDING :: string where "PENDING \<equiv> ''pending''"
abbreviation RESOLVED :: string where "RESOLVED \<equiv> ''resolved''"
abbreviation TIMEOUT :: string where "TIMEOUT \<equiv> ''timeout''"
abbreviation LEARNED :: string where "LEARNED \<equiv> ''learned''"

subsection \<open>Time\<close>

text \<open>
  A \<^verbatim>\<open>datetime\<close> is a number of microseconds since the epoch. The standard library's
  \<^verbatim>\<open>datetime.isoformat\<close> and \<^verbatim>\<open>datetime.fromisoformat\<close> are parameters
  \<open>isoformat\<close> and \<open>fromisoformat\<close> of the functions that call them;
  \<open>fromisoformat s = None\<close> stands for every string on which parsing raises
  \<^verbatim>\<open>ValueError\<close>. Each call of \<^verbatim>\<open>datetime.utcnow()\<close> and of \<^verbatim>\<open>uuid4()\<close> is a
  parameter too, one per call.
\<close>

type_synonym datetime = int

definition timedelta_hours :: "int \<Rightarrow> int" where
  "timedelta_hours h = h * 3600000000"

section \<open>The database (\<^verbatim>\<open>app/database.py\<close>)\<close>

text \<open>
  \<open>app\<close> is the module variable \<^verbatim>\<open>_app\<close> (set by \<^verbatim>\<open>init_firebase\<close>, cleared by
  \<^verbatim>\<open>close_firebase\<close>); the two other fields are the contents of the two nodes the
  services read and write.
\<close>

record database =
  app :: bool
  help_requests :: "(string \<times> node) list"
  knowledge_base :: "(string \<times> node) list"

text \<open>\<^verbatim>\<open>get_db_ref\<close> raises \<^verbatim>\<open>RuntimeError\<close> when Firebase is not initialised.\<close>

definition get_db_ref :: "database \<Rightarrow> exn + unit" where
  "get_db_ref db = (if \<not> app db then Inl RuntimeError else Inr ())"

section \<open>Statistics (\<^verbatim>\<open>FirebaseService.get_stats\<close>)\<close>

record stats =
  pending :: nat
  resolved :: nat
  timeout :: nat
  total :: nat

definition zero_stats :: stats where
  "zero_stats = \<lparr>pending = 0, resolved = 0, timeout = 0, total = 0\<rparr>"

text \<open>\<^verbatim>\<open>isinstance(r, dict) and r.get("status") == s\<close>.\<close>

fun has_status :: "string \<Rightarrow> node \<Rightarrow> bool" where
  "has_status s (Scalar v) = False"
| "has_status s (Dict d) = (dict_get d ''status'' = JStr s)"

text \<open>\<^verbatim>\<open>sum(1 for r in data.values() if ...)\<close>.\<close>

definition count_status :: "string \<Rightarrow> (string \<times> node) list \<Rightarrow> nat" where
  "count_status s data = length (filter (has_status s) (map snd data))"

definition get_stats :: "database \<Rightarrow> stats" where
  "get_stats db =
     (case get_db_ref db of
        Inl e \<Rightarrow> zero_stats
      | Inr _ \<Rightarrow>
          let data = help_requests db in
          if data = [] then zero_stats
          else
            let p = count_status PENDING data;
                r = count_status RESOLVED data;
                t = count_status TIMEOUT data
            in \<lparr>pending = p, resolved = r, timeout = t, total = p + r + t\<rparr>)"

section \<open>Response models (\<^verbatim>\<open>app/models/firebase_models.py\<close>)\<close>

text \<open>
  \<^verbatim>\<open>HelpRequestResponse(**request_data)\<close> is pydantic validation: the fields declared
  \<^verbatim>\<open>str\<close> must be present and strings, those declared \<^verbatim>\<open>Optional[str] = None\<close> may be
  absent or \<^verbatim>\<open>None\<close>, other keys of the dictionary are ignored, and anything else
  raises a validation error. The field \<^verbatim>\<open>id\<close> is \<open>hr_id\<close> here, and so on.
\<close>

record HelpRequestResponse =
  hr_id :: string
  hr_question :: string
  hr_caller_info :: "string option"
  hr_status :: string
  hr_created_at :: string
  hr_resolved_at :: "string option"
  hr_timeout_at :: string
  hr_answer :: "string option"
  hr_answered_by :: "string option"
  hr_session_id :: string

fun is_str :: "jval \<Rightarrow> bool" where
  "is_str (JStr s) = True"
| "is_str v = False"

fun is_opt_str :: "jval \<Rightarrow> bool" where
  "is_opt_str (JStr s) = True"
| "is_opt_str JNull = True"
| "is_opt_str v = False"

fun str_of :: "jval \<Rightarrow> string" where
  "str_of (JStr s) = s"
| "str_of v = []"

fun opt_str_of :: "jval \<Rightarrow> string option" where
  "opt_str_of (JStr s) = Some s"
| "opt_str_of v = None"

definition valid_help_request :: "jdict \<Rightarrow> bool" where
  "valid_help_request d \<longleftrightarrow>
     is_str (dict_get d ''id'') \<and> is_str (dict_get d ''question'')
     \<and> is_opt_str (dict_get d ''caller_info'') \<and> is_str (dict_get d ''status'')
     \<and> is_str (dict_get d ''created_at'') \<and> is_opt_str (dict_get d ''resolved_at'')
     \<and> is_str (dict_get d ''timeout_at'') \<and> is_opt_str (dict_get d ''answer'')
     \<and> is_opt_str (dict_get d ''answered_by'') \<and> is_str (dict_get d ''session_id'')"

definition HelpRequestResponse_of :: "jdict \<Rightarrow> exn + HelpRequestResponse" where
  "HelpRequestResponse_of d =
     (if valid_help_request d then
        Inr \<lparr>hr_id = str_of (dict_get d ''id''),
             hr_question = str_of (dict_get d ''question''),
             hr_caller_info = opt_str_of (dict_get d ''caller_info''),
             hr_status = str_of (dict_get d ''status''),
             hr_created_at = str_of (dict_get d ''created_at''),
             hr_resolved_at = opt_str_of (dict_get d ''resolved_at''),
             hr_timeout_at = str_of (dict_get d ''timeout_at''),
             hr_answer = opt_str_of (dict_get d ''answer''),
             hr_answered_by = opt_str_of (dict_get d ''answered_by''),
             hr_session_id = str_of (dict_get d ''session_id'')\<rparr>
      else Inl ValidationError)"

fun jopt :: "string option \<Rightarrow> jval" where
  "jopt None = JNull"
| "jopt (Some s) = JStr s"

text \<open>\<^verbatim>\<open>result.model_dump()\<close>.\<close>

definition model_dump :: "HelpRequestResponse \<Rightarrow> jdict" where
  "model_dump r =
     [(''id'', JStr (hr_id r)), (''question'', JStr (hr_question r)),
      (''caller_info'', jopt (hr_caller_info r)), (''status'', JStr (hr_status r)),
      (''created_at'', JStr (hr_created_at r)), (''resolved_at'', jopt (hr_resolved_at r)),
      (''timeout_at'', JStr (hr_timeout_at r)), (''answer'', jopt (hr_answer r)),
      (''answered_by'', jopt (hr_answered_by r)), (''session_id'', JStr (hr_session_id r))]"

record KnowledgeBaseResponse =
  kb_id :: string
  kb_question :: string
  kb_answer :: string
  kb_source :: string
  kb_created_at :: string
  kb_updated_at :: string
  kb_use_count :: int

text \<open>
  \<^verbatim>\<open>HelpRequestAnswer\<close>: \<^verbatim>\<open>answer\<close> of 5 to 2000 characters, \<^verbatim>\<open>supervisor_name\<close> of
  at most 100 (\<open>length\<close> counts characters of the 8-bit \<open>char\<close>; Python counts code
  points).
\<close>

record HelpRequestAnswer =
  ans_answer :: string
  ans_supervisor_name :: string

definition HelpRequestAnswer_of :: "string \<Rightarrow> string \<Rightarrow> exn + HelpRequestAnswer" where
  "HelpRequestAnswer_of answer supervisor_name =
     (if 5 \<le> length answer \<and> length answer \<le> 2000 \<and> length supervisor_name \<le> 100
      then Inr \<lparr>ans_answer = answer, ans_supervisor_name = supervisor_name\<rparr>
      else Inl ValidationError)"

text \<open>The standard library functions the services call.\<close>

record stdlib =
  isoformat :: "datetime \<Rightarrow> string"
  fromisoformat :: "string \<Rightarrow> datetime option"
  json_dumps :: "(string \<times> string) list \<Rightarrow> string"

section \<open>\<^verbatim>\<open>FirebaseService\<close> (\<^verbatim>\<open>app/services/firebase_service.py\<close>)\<close>

text \<open>
  A service function returns its result, or the exception it raises, together with the
  database as it leaves it: a write made before an exception stays made.
  \<^verbatim>\<open>ref.set(v)\<close> on \<^verbatim>\<open>/help_requests/{request_id}\<close> replaces the value under that
  key; \<^verbatim>\<open>ref.get()\<close> there is \<open>map_of\<close>, \<^verbatim>\<open>None\<close> when nothing is stored.
\<close>

definition help_request_data_of ::
  "stdlib \<Rightarrow> string \<Rightarrow> datetime \<Rightarrow> datetime \<Rightarrow> string \<Rightarrow> string \<Rightarrow> string \<Rightarrow> jdict" where
  "help_request_data_of L request_id now1 now2 question caller_info session_id =
     (let now = isoformat L now1;
          timeout_at = isoformat L (now2 + timedelta_hours 2)
      in [(''id'', JStr request_id),
          (''question'', JStr question),
          (''caller_info'', JStr (if caller_info \<noteq> [] then caller_info else ''Anonymous'')),
          (''status'', JStr PENDING),
          (''created_at'', JStr now),
          (''resolved_at'', JNull),
          (''timeout_at'', JStr timeout_at),
          (''answer'', JNull),
          (''answered_by'', JNull),
          (''session_id'', JStr session_id),
          (''callback_info'', JStr (json_dumps L [(''phone'', caller_info), (''ask_time'', now)])),
          (''attempt_count'', JInt 0)])"

text \<open>
  \<^verbatim>\<open>create_help_request\<close>: \<open>request_id\<close> is the value of \<^verbatim>\<open>uuid4()\<close>, \<open>now1\<close> and
  \<open>now2\<close> the two readings of \<^verbatim>\<open>datetime.utcnow()\<close>, in the order of the source.
\<close>

definition create_help_request ::
  "stdlib \<Rightarrow> string \<Rightarrow> datetime \<Rightarrow> datetime \<Rightarrow> string \<Rightarrow> string \<Rightarrow> string \<Rightarrow> database
     \<Rightarrow> (exn + HelpRequestResponse) \<times> database" where
  "create_help_request L request_id now1 now2 question caller_info session_id db =
     (let help_request_data =
            help_request_data_of L request_id now1 now2 question caller_info session_id
      in case get_db_ref db of
           Inl e \<Rightarrow> (Inl e, db)
         | Inr _ \<Rightarrow>
             (HelpRequestResponse_of help_request_data,
              db\<lparr>help_requests :=
                   AList.update request_id (Dict help_request_data) (help_requests db)\<rparr>))"

text \<open>
  \<^verbatim>\<open>get_all_help_requests\<close>: the loop skips the marker key, the values that are not
  dictionaries and the dictionaries that do not validate; the result is sorted by
  \<^verbatim>\<open>created_at\<close>, newest first (a stable sort, \<^verbatim>\<open>reverse=True\<close>). Every exception
  is caught and gives the empty list.
\<close>

fun parse_requests :: "(string \<times> node) list \<Rightarrow> HelpRequestResponse list" where
  "parse_requests [] = []"
| "parse_requests ((request_id, request_data) # rest) =
     (if request_id = ''initialized'' then parse_requests rest
      else case request_data of
             Scalar v \<Rightarrow> parse_requests rest
           | Dict d \<Rightarrow>
               (case HelpRequestResponse_of d of
                  Inl e \<Rightarrow> parse_requests rest
                | Inr r \<Rightarrow> r # parse_requests rest))"

definition get_all_help_requests :: "database \<Rightarrow> HelpRequestResponse list" where
  "get_all_help_requests db =
     (case get_db_ref db of
        Inl e \<Rightarrow> []
      | Inr _ \<Rightarrow>
          let data = help_requests db in
          if data = [] then []
          else rev (sort_key hr_created_at (rev (parse_requests data))))"

text \<open>
  \<^verbatim>\<open>get_request_by_id\<close>: every exception is caught and gives \<^verbatim>\<open>None\<close>
  (\<^verbatim>\<open>HelpRequestResponse(**data)\<close> on a scalar raises \<^verbatim>\<open>TypeError\<close>).
\<close>

definition get_request_by_id :: "string \<Rightarrow> database \<Rightarrow> HelpRequestResponse option" where
  "get_request_by_id request_id db =
     (case get_db_ref db of
        Inl e \<Rightarrow> None
      | Inr _ \<Rightarrow>
          let data = map_of (help_requests db) request_id in
          if truthy data then
            (case data of
               Some (Dict d) \<Rightarrow>
                 (case HelpRequestResponse_of d of Inl e \<Rightarrow> None | Inr r \<Rightarrow> Some r)
             | _ \<Rightarrow> None)
          else None)"

text \<open>
  \<^verbatim>\<open>add_to_knowledge_base\<close>: \<open>question\<close> is the value \<^verbatim>\<open>request_data["question"]\<close> of
  the stored record, whatever its type. The entry is written first; after the write,
  \<^verbatim>\<open>len(question)\<close> raises \<^verbatim>\<open>TypeError\<close> on a value that is not a string, and for a
  string every field of the entry has its declared type, so the response validates.
\<close>

definition kb_entry_data_of :: "stdlib \<Rightarrow> string \<Rightarrow> datetime \<Rightarrow> jval \<Rightarrow> string \<Rightarrow> jdict" where
  "kb_entry_data_of L new_kb_id kb_now question answer =
     (let now = isoformat L kb_now
      in [(''id'', JStr new_kb_id),
          (''question'', question),
          (''answer'', JStr answer),
          (''source'', JStr LEARNED),
          (''created_at'', JStr now),
          (''updated_at'', JStr now),
          (''use_count'', JInt 0)])"

definition add_to_knowledge_base ::
  "stdlib \<Rightarrow> string \<Rightarrow> datetime \<Rightarrow> jval \<Rightarrow> string \<Rightarrow> database
     \<Rightarrow> (exn + KnowledgeBaseResponse) \<times> database" where
  "add_to_knowledge_base L new_kb_id kb_now question answer db =
     (let kb_entry_data = kb_entry_data_of L new_kb_id kb_now question answer
      in case get_db_ref db of
           Inl e \<Rightarrow> (Inl e, db)
         | Inr _ \<Rightarrow>
             (let db' = db\<lparr>knowledge_base :=
                              AList.update new_kb_id (Dict kb_entry_data) (knowledge_base db)\<rparr>
              in case question of
                   JStr q \<Rightarrow>
                     (Inr \<lparr>kb_id = new_kb_id, kb_question = q, kb_answer = answer,
                           kb_source = LEARNED, kb_created_at = isoformat L kb_now,
                           kb_updated_at = isoformat L kb_now, kb_use_count = 0\<rparr>, db')
                 | _ \<Rightarrow> (Inl TypeError, db')))"

text \<open>
  \<^verbatim>\<open>answer_request\<close>: \<open>now\<close> is the reading of the clock for \<^verbatim>\<open>resolved_at\<close>;
  \<open>new_kb_id\<close> and \<open>kb_now\<close> are the \<^verbatim>\<open>uuid4()\<close> and the clock of
  \<^verbatim>\<open>add_to_knowledge_base\<close>. The four assignments and the write come right after the
  test \<^verbatim>\<open>if not request_data\<close>; item assignment on a scalar raises \<^verbatim>\<open>TypeError\<close>.
\<close>

definition resolved_data :: "stdlib \<Rightarrow> datetime \<Rightarrow> HelpRequestAnswer \<Rightarrow> jdict \<Rightarrow> jdict" where
  "resolved_data L now answer_data request_data =
     dict_set
       (dict_set
          (dict_set
             (dict_set request_data ''status'' (JStr RESOLVED))
             ''answer'' (JStr (ans_answer answer_data)))
          ''answered_by'' (JStr (ans_supervisor_name answer_data)))
       ''resolved_at'' (JStr (isoformat L now))"

definition answer_request ::
  "stdlib \<Rightarrow> datetime \<Rightarrow> string \<Rightarrow> datetime \<Rightarrow> string \<Rightarrow> HelpRequestAnswer \<Rightarrow> database
     \<Rightarrow> (exn + HelpRequestResponse) \<times> database" where
  "answer_request L now new_kb_id kb_now request_id answer_data db =
     (case get_db_ref db of
        Inl e \<Rightarrow> (Inl e, db)
      | Inr _ \<Rightarrow>
          let request_data = map_of (help_requests db) request_id in
          if \<not> truthy request_data then (Inl ValueError, db)
          else
            (case request_data of
               Some (Dict d) \<Rightarrow>
                 (let d' = resolved_data L now answer_data d;
                      db1 = db\<lparr>help_requests :=
                                   AList.update request_id (Dict d') (help_requests db)\<rparr>
                  in case dict_item d' ''question'' of
                       Inl e \<Rightarrow> (Inl e, db1)
                     | Inr question \<Rightarrow>
                         (case add_to_knowledge_base L new_kb_id kb_now question
                                 (ans_answer answer_data) db1 of
                            (Inl e, db2) \<Rightarrow> (Inl e, db2)
                          | (Inr entry, db2) \<Rightarrow> (HelpRequestResponse_of d', db2)))
             | _ \<Rightarrow> (Inl TypeError, db)))"

text \<open>\<^verbatim>\<open>timeout_request\<close>.\<close>

definition timeout_request ::
  "string \<Rightarrow> database \<Rightarrow> (exn + HelpRequestResponse) \<times> database" where
  "timeout_request request_id db =
     (case get_db_ref db of
        Inl e \<Rightarrow> (Inl e, db)
      | Inr _ \<Rightarrow>
          let request_data = map_of (help_requests db) request_id in
          if truthy request_data then
            (case request_data of
               Some (Dict d) \<Rightarrow>
                 (let d' = dict_set d ''status'' (JStr TIMEOUT)
                  in (HelpRequestResponse_of d',
                      db\<lparr>help_requests :=
                           AList.update request_id (Dict d') (help_requests db)\<rparr>))
             | _ \<Rightarrow> (Inl TypeError, db))
          else (Inl ValueError, db))"

section \<open>\<^verbatim>\<open>ConnectionManager\<close> and \<^verbatim>\<open>NotificationService\<close>
  (\<^verbatim>\<open>app/services/notification_service.py\<close>)\<close>

text \<open>
  A websocket is an opaque handle. Whether \<^verbatim>\<open>connection.send_json(message)\<close> returns or
  raises is decided by the transport: it is the parameter \<open>send_json\<close>, true when the
  send returns. The \<open>journal\<close> beside the registry is not a field of the Python class:
  it records, in order, each call of \<^verbatim>\<open>broadcast\<close> and each attempted send with its
  outcome, so that what was emitted and what was delivered can be stated.
\<close>

type_synonym websocket = nat

record message =
  msg_type :: string
  msg_data :: jdict
  msg_timestamp :: string

datatype io_event = Broadcast message | Sent websocket message | SendFailed websocket message

record ConnectionManager =
  active_connections :: "websocket list"
  journal :: "io_event list"

definition connect :: "websocket \<Rightarrow> ConnectionManager \<Rightarrow> ConnectionManager" where
  "connect ws mgr = mgr\<lparr>active_connections := active_connections mgr @ [ws]\<rparr>"

definition disconnect :: "websocket \<Rightarrow> ConnectionManager \<Rightarrow> ConnectionManager" where
  "disconnect ws mgr =
     (if ws \<in> set (active_connections mgr)
      then mgr\<lparr>active_connections := remove1 ws (active_connections mgr)\<rparr>
      else mgr)"

text \<open>
  The first loop of \<^verbatim>\<open>broadcast\<close>: one attempt per registered connection, in order;
  the result is the list \<^verbatim>\<open>failed_connections\<close> and the outcomes to journal.
\<close>

fun send_all ::
  "(websocket \<Rightarrow> message \<Rightarrow> bool) \<Rightarrow> message \<Rightarrow> websocket list
     \<Rightarrow> websocket list \<times> io_event list" where
  "send_all send_json msg [] = ([], [])"
| "send_all send_json msg (connection # rest) =
     (let (failed_connections, events) = send_all send_json msg rest
      in if send_json connection msg
         then (failed_connections, Sent connection msg # events)
         else (connection # failed_connections, SendFailed connection msg # events))"

text \<open>The second loop: \<^verbatim>\<open>for conn in failed_connections: self.disconnect(conn)\<close>.\<close>

fun disconnect_all :: "websocket list \<Rightarrow> ConnectionManager \<Rightarrow> ConnectionManager" where
  "disconnect_all [] mgr = mgr"
| "disconnect_all (conn # rest) mgr = disconnect_all rest (disconnect conn mgr)"

definition broadcast ::
  "(websocket \<Rightarrow> message \<Rightarrow> bool) \<Rightarrow> message \<Rightarrow> ConnectionManager \<Rightarrow> ConnectionManager" where
  "broadcast send_json msg mgr =
     (if active_connections mgr = [] then mgr\<lparr>journal := journal mgr @ [Broadcast msg]\<rparr>
      else
        let (failed_connections, events) = send_all send_json msg (active_connections mgr)
        in disconnect_all failed_connections
             (mgr\<lparr>journal := journal mgr @ Broadcast msg # events\<rparr>))"

text \<open>
  The notifications read the request with \<^verbatim>\<open>request_data.get\<close>. A dictionary has that
  method; a pydantic model has not, and the call raises \<^verbatim>\<open>AttributeError\<close> before any
  message is built. \<open>ts\<close> is the clock reading for the envelope's timestamp.
\<close>

datatype request_arg = AsDict jdict | AsModel HelpRequestResponse

definition new_request_message :: "stdlib \<Rightarrow> datetime \<Rightarrow> jdict \<Rightarrow> message" where
  "new_request_message L ts request_data =
     \<lparr>msg_type = ''new_request'',
      msg_data = [(''request_id'', dict_get request_data ''id''),
                  (''question'', dict_get request_data ''question''),
                  (''caller_info'', dict_get request_data ''caller_info''),
                  (''created_at'', dict_get request_data ''created_at'')],
      msg_timestamp = isoformat L ts\<rparr>"

definition request_resolved_message :: "stdlib \<Rightarrow> datetime \<Rightarrow> jdict \<Rightarrow> message" where
  "request_resolved_message L ts request_data =
     \<lparr>msg_type = ''request_resolved'',
      msg_data = [(''request_id'', dict_get request_data ''id''),
                  (''answer'', dict_get request_data ''answer''),
                  (''answered_by'', dict_get request_data ''answered_by''),
                  (''resolved_at'', dict_get request_data ''resolved_at'')],
      msg_timestamp = isoformat L ts\<rparr>"

definition request_timeout_message :: "stdlib \<Rightarrow> datetime \<Rightarrow> jdict \<Rightarrow> message" where
  "request_timeout_message L ts request_data =
     \<lparr>msg_type = ''request_timeout'',
      msg_data = [(''request_id'', dict_get request_data ''id''),
                  (''question'', dict_get request_data ''question''),
                  (''created_at'', dict_get request_data ''created_at''),
                  (''caller_info'', dict_get request_data ''caller_info'')],
      msg_timestamp = isoformat L ts\<rparr>"

definition notify ::
  "(jdict \<Rightarrow> message) \<Rightarrow> (websocket \<Rightarrow> message \<Rightarrow> bool) \<Rightarrow> request_arg \<Rightarrow> ConnectionManager
     \<Rightarrow> (exn + unit) \<times> ConnectionManager" where
  "notify build send_json arg mgr =
     (case arg of
        AsModel r \<Rightarrow> (Inl AttributeError, mgr)
      | AsDict request_data \<Rightarrow> (Inr (), broadcast send_json (build request_data) mgr))"

definition notify_new_request ::
  "stdlib \<Rightarrow> (websocket \<Rightarrow> message \<Rightarrow> bool) \<Rightarrow> datetime \<Rightarrow> request_arg \<Rightarrow> ConnectionManager
     \<Rightarrow> (exn + unit) \<times> ConnectionManager" where
  "notify_new_request L send_json ts = notify (new_request_message L ts) send_json"

definition notify_request_resolved ::
  "stdlib \<Rightarrow> (websocket \<Rightarrow> message \<Rightarrow> bool) \<Rightarrow> datetime \<Rightarrow> request_arg \<Rightarrow> ConnectionManager
     \<Rightarrow> (exn + unit) \<times> ConnectionManager" where
  "notify_request_resolved L send_json ts = notify (request_resolved_message L ts) send_json"

definition notify_request_timeout ::
  "stdlib \<Rightarrow> (websocket \<Rightarrow> message \<Rightarrow> bool) \<Rightarrow> datetime \<Rightarrow> request_arg \<Rightarrow> ConnectionManager
     \<Rightarrow> (exn + unit) \<times> ConnectionManager" where
  "notify_request_timeout L send_json ts = notify (request_timeout_message L ts) send_json"

section \<open>\<^verbatim>\<open>TimeoutService\<close> (\<^verbatim>\<open>app/services/timeout_service.py\<close>)\<close>

text \<open>
  \<^verbatim>\<open>datetime.fromisoformat(request_data.get("timeout_at"))\<close> raises \<^verbatim>\<open>TypeError\<close> on a
  value that is not a string and \<^verbatim>\<open>ValueError\<close> on a string it cannot parse; the loop
  catches both and goes on to the next record.
\<close>

fun parse_timeout_at :: "stdlib \<Rightarrow> jval \<Rightarrow> exn + datetime" where
  "parse_timeout_at L (JStr s) =
     (case fromisoformat L s of None \<Rightarrow> Inl ValueError | Some t \<Rightarrow> Inr t)"
| "parse_timeout_at L v = Inl TypeError"

text \<open>The first loop of \<^verbatim>\<open>_process_timeouts\<close>, which fills \<^verbatim>\<open>timed_out_requests\<close>.\<close>

fun find_timed_out :: "stdlib \<Rightarrow> datetime \<Rightarrow> (string \<times> node) list \<Rightarrow> (string \<times> jdict) list" where
  "find_timed_out L now [] = []"
| "find_timed_out L now ((request_id, Scalar v) # rest) = find_timed_out L now rest"
| "find_timed_out L now ((request_id, Dict request_data) # rest) =
     (if request_id = ''initialized'' then find_timed_out L now rest
      else if dict_get request_data ''status'' = JStr PENDING then
        (case parse_timeout_at L (dict_get request_data ''timeout_at'') of
           Inl e \<Rightarrow> find_timed_out L now rest
         | Inr timeout_at \<Rightarrow>
             if timeout_at \<le> now then (request_id, request_data) # find_timed_out L now rest
             else find_timed_out L now rest)
      else find_timed_out L now rest)"

text \<open>
  The second loop: the status is set in the dictionary read by the first loop, the
  dictionary is written under its key and the supervisors are notified. \<open>stamp\<close> gives
  the clock reading of each notification.
\<close>

fun apply_timeouts ::
  "stdlib \<Rightarrow> (websocket \<Rightarrow> message \<Rightarrow> bool) \<Rightarrow> (string \<Rightarrow> datetime) \<Rightarrow> (string \<times> jdict) list
     \<Rightarrow> database \<times> ConnectionManager \<Rightarrow> database \<times> ConnectionManager" where
  "apply_timeouts L send_json stamp [] (db, mgr) = (db, mgr)"
| "apply_timeouts L send_json stamp ((request_id, request_data) # rest) (db, mgr) =
     (let request_data' = dict_set request_data ''status'' (JStr TIMEOUT);
          db' = db\<lparr>help_requests :=
                      AList.update request_id (Dict request_data') (help_requests db)\<rparr>;
          mgr' = snd (notify_request_timeout L send_json (stamp request_id)
                        (AsDict request_data') mgr)
      in apply_timeouts L send_json stamp rest (db', mgr'))"

text \<open>
  \<^verbatim>\<open>_process_timeouts\<close>: \<open>now\<close> is the clock reading taken on entry. An exception
  (here: Firebase not initialised) is caught and printed.
\<close>

definition process_timeouts ::
  "stdlib \<Rightarrow> (websocket \<Rightarrow> message \<Rightarrow> bool) \<Rightarrow> datetime \<Rightarrow> (string \<Rightarrow> datetime)
     \<Rightarrow> database \<times> ConnectionManager \<Rightarrow> database \<times> ConnectionManager" where
  "process_timeouts L send_json now stamp st =
     (case get_db_ref (fst st) of
        Inl e \<Rightarrow> st
      | Inr _ \<Rightarrow>
          let data = help_requests (fst st) in
          if data = [] then st
          else apply_timeouts L send_json stamp (find_timed_out L now data) st)"

section \<open>Routes (\<^verbatim>\<open>app/api/routes/help_requests.py\<close>)\<close>

text \<open>
  A route returns its response or raises \<^verbatim>\<open>HTTPException\<close> with a status code (the
  detail text, built from the exception's message, is left out). The request body of
  the create route is the route's own \<^verbatim>\<open>HelpRequestCreate\<close>: three fields of type
  \<^verbatim>\<open>str\<close>, with no constraint on their length.
\<close>

datatype 'a http = HTTPException nat | Response 'a

definition create_help_request_route ::
  "stdlib \<Rightarrow> (websocket \<Rightarrow> message \<Rightarrow> bool) \<Rightarrow> string \<Rightarrow> datetime \<Rightarrow> datetime \<Rightarrow> datetime
     \<Rightarrow> string \<Rightarrow> string \<Rightarrow> string \<Rightarrow> database \<times> ConnectionManager
     \<Rightarrow> HelpRequestResponse http \<times> database \<times> ConnectionManager" where
  "create_help_request_route L send_json request_id now1 now2 ts question caller_info session_id st =
     (case create_help_request L request_id now1 now2 question caller_info session_id (fst st) of
        (Inl e, db') \<Rightarrow> (HTTPException 500, db', snd st)
      | (Inr result, db') \<Rightarrow>
          (Response result, db',
           snd (notify_new_request L send_json ts (AsModel result) (snd st))))"

text \<open>
  The answer route: \<open>ts\<close> is the clock reading of the \<^verbatim>\<open>request_resolved\<close> envelope.
  \<^verbatim>\<open>notify_customer_callback\<close> only prints.
\<close>

definition answer_help_request ::
  "stdlib \<Rightarrow> (websocket \<Rightarrow> message \<Rightarrow> bool) \<Rightarrow> datetime \<Rightarrow> string \<Rightarrow> datetime \<Rightarrow> datetime
     \<Rightarrow> string \<Rightarrow> string \<Rightarrow> string \<Rightarrow> database \<times> ConnectionManager
     \<Rightarrow> HelpRequestResponse http \<times> database \<times> ConnectionManager" where
  "answer_help_request L send_json now new_kb_id kb_now ts request_id answer supervisor_name st =
     (case HelpRequestAnswer_of answer supervisor_name of
        Inl e \<Rightarrow> (HTTPException 500, st)
      | Inr answer_data \<Rightarrow>
          (case answer_request L now new_kb_id kb_now request_id answer_data (fst st) of
             (Inl e, db') \<Rightarrow> (HTTPException 500, db', snd st)
           | (Inr result, db') \<Rightarrow>
               (Response result, db',
                snd (notify_request_resolved L send_json ts
                       (AsDict (model_dump result)) (snd st)))))"

definition get_help_requests :: "database \<Rightarrow> HelpRequestResponse list http" where
  "get_help_requests db = Response (get_all_help_requests db)"

definition get_help_request :: "string \<Rightarrow> database \<Rightarrow> HelpRequestResponse http" where
  "get_help_request request_id db =
     (case get_request_by_id request_id db of
        None \<Rightarrow> HTTPException 404
      | Some result \<Rightarrow> Response result)"

definition get_stats_route :: "database \<Rightarrow> stats http" where
  "get_stats_route db = Response (get_stats db)"

section \<open>Example states\<close>

text \<open>
  Concrete inputs for the scenarios below. \<open>example_stdlib\<close> agrees with Python's
  \<^verbatim>\<open>isoformat\<close> and \<^verbatim>\<open>fromisoformat\<close> on the two instants the examples use, the epoch
  and two hours later, and renders \<^verbatim>\<open>json.dumps\<close> of strings that need no escape.
\<close>

definition example_isoformat :: "datetime \<Rightarrow> string" where
  "example_isoformat t =
     (if t = 0 then ''1970-01-01T00:00:00''
      else if t = 7200000000 then ''1970-01-01T02:00:00''
      else ''9999-12-31T23:59:59'')"

definition example_fromisoformat :: "string \<Rightarrow> datetime option" where
  "example_fromisoformat s =
     (if s = ''1970-01-01T00:00:00'' then Some 0
      else if s = ''1970-01-01T02:00:00'' then Some 7200000000
      else None)"

fun example_json_items :: "(string \<times> string) list \<Rightarrow> string" where
  "example_json_items [] = []"
| "example_json_items [(k, v)] = CHR 0x22 # k @ CHR 0x22 # '': '' @ CHR 0x22 # v @ [CHR 0x22]"
| "example_json_items ((k, v) # rest) =
     CHR 0x22 # k @ CHR 0x22 # '': '' @ CHR 0x22 # v @ CHR 0x22 # '', '' @ example_json_items rest"

definition example_stdlib :: stdlib where
  "example_stdlib =
     \<lparr>isoformat = example_isoformat,
      fromisoformat = example_fromisoformat,
      json_dumps = (\<lambda>items. ''{'' @ example_json_items items @ ''}'')\<rparr>"

text \<open>A pending request created at the epoch, as \<^verbatim>\<open>create_help_request\<close> stores it.\<close>

definition example_pending :: "string \<Rightarrow> jdict" where
  "example_pending request_id =
     help_request_data_of example_stdlib request_id 0 0
       ''Do you do hair transplants?'' ''555-0101'' ''room-42''"

definition example_answer :: HelpRequestAnswer where
  "example_answer = \<lparr>ans_answer = ''24 hours notice required'', ans_supervisor_name = ''Sarah''\<rparr>"

definition example_resolved :: "string \<Rightarrow> jdict" where
  "example_resolved request_id =
     resolved_data example_stdlib 7200000000 example_answer (example_pending request_id)"

definition example_timed_out :: "string \<Rightarrow> jdict" where
  "example_timed_out request_id = dict_set (example_pending request_id) ''status'' (JStr TIMEOUT)"

text \<open>The markers of \<^verbatim>\<open>create_initial_data\<close>, then the given records.\<close>

definition example_db :: "(string \<times> node) list \<Rightarrow> database" where
  "example_db records =
     \<lparr>app = True,
      help_requests =
        [(''initialized'', Scalar (JBool True)),
         (''created_at'', Scalar (JStr ''1970-01-01T00:00:00''))] @ records,
      knowledge_base =
        [(''initialized'', Scalar (JBool True)),
         (''created_at'', Scalar (JStr ''1970-01-01T00:00:00''))]\<rparr>"

definition example_mixed_db :: database where
  "example_mixed_db =
     example_db [(''r1'', Dict (example_pending ''r1'')), (''r2'', Dict (example_pending ''r2'')),
                 (''r3'', Dict (example_resolved ''r3'')), (''r4'', Dict (example_timed_out ''r4''))]"

text \<open>What the journal records for one attempted send.\<close>

definition outcome :: "(websocket \<Rightarrow> message \<Rightarrow> bool) \<Rightarrow> message \<Rightarrow> websocket \<Rightarrow> io_event" where
  "outcome send_json msg c = (if send_json c msg then Sent c msg else SendFailed c msg)"

text \<open>A registry of three connections, and a message to broadcast.\<close>

definition example_message :: message where
  "example_message = request_timeout_message example_stdlib 7200000000 (example_timed_out ''r1'')"

definition example_manager :: ConnectionManager where
  "example_manager = \<lparr>active_connections = [1, 2, 3], journal = []\<rparr>"

text \<open>The mixed store after \<^verbatim>\<open>close_firebase\<close>: every access raises.\<close>

definition example_offline_db :: database where
  "example_offline_db = example_mixed_db\<lparr>app := False\<rparr>"

text \<open>
  The knowledge entry a resolve is expected to record for a question and its answer:
  tagged \<^verbatim>\<open>learned\<close>, never used yet.
\<close>

definition learned_entry :: "stdlib \<Rightarrow> string \<Rightarrow> datetime \<Rightarrow> string \<Rightarrow> string \<Rightarrow> jdict" where
  "learned_entry L new_kb_id kb_now question answer =
     [(''id'', JStr new_kb_id), (''question'', JStr question), (''answer'', JStr answer),
      (''source'', JStr LEARNED), (''created_at'', JStr (isoformat L kb_now)),
      (''updated_at'', JStr (isoformat L kb_now)), (''use_count'', JInt 0)]"

text \<open>The response to resolving \<^verbatim>\<open>r1\<close> of the mixed store two hours after the epoch.\<close>

definition example_resolved_response :: HelpRequestResponse where
  "example_resolved_response =
     \<lparr>hr_id = ''r1'', hr_question = ''Do you do hair transplants?'',
      hr_caller_info = Some ''555-0101'', hr_status = RESOLVED,
      hr_created_at = ''1970-01-01T00:00:00'',
      hr_resolved_at = Some ''1970-01-01T02:00:00'',
      hr_timeout_at = ''1970-01-01T02:00:00'',
      hr_answer = Some ''24 hours notice required'',
      hr_answered_by = Some ''Sarah'', hr_session_id = ''room-42''\<rparr>"

section \<open>The sweep as the specification words it\<close>


text \<open>
  A record is a dictionary stored under a key other than the marker key. It is due when
  its status is \<^verbatim>\<open>pending\<close> and its \<^verbatim>\<open>timeout_at\<close> is a time not later than now; the
  timeout transition sets its status. \<open>sweep_entry\<close> is what one sweep is expected to
  do to an entry of the store, \<open>timeout_event\<close> the event expected for a due record.
\<close>

definition deadline_passed :: "stdlib \<Rightarrow> datetime \<Rightarrow> jdict \<Rightarrow> bool" where
  "deadline_passed L now d =
     (case dict_get d ''timeout_at'' of
        JStr s \<Rightarrow> (case fromisoformat L s of None \<Rightarrow> False | Some t \<Rightarrow> t \<le> now)
      | _ \<Rightarrow> False)"

fun due :: "stdlib \<Rightarrow> datetime \<Rightarrow> string \<times> node \<Rightarrow> bool" where
  "due L now (request_id, Scalar v) = False"
| "due L now (request_id, Dict d) =
     (request_id \<noteq> ''initialized'' \<and> dict_get d ''status'' = JStr PENDING
      \<and> deadline_passed L now d)"

fun timed_out :: "node \<Rightarrow> node" where
  "timed_out (Scalar v) = Scalar v"
| "timed_out (Dict d) = Dict (dict_set d ''status'' (JStr TIMEOUT))"

fun the_dict :: "node \<Rightarrow> jdict" where
  "the_dict (Scalar v) = []"
| "the_dict (Dict d) = d"



text \<open>The fields of an escalation other than its status.\<close>

definition frame_fields :: "string list" where
  "frame_fields = [''question'', ''caller_info'', ''created_at'', ''timeout_at'', ''answer'',
                   ''answered_by'', ''resolved_at'', ''session_id'']"

section \<open>Resolve and sweep on one record\<close>




section \<open>Properties\<close>

lemma count_status_Nil: "count_status s [] = 0"
  by (simp add: count_status_def)

text \<open>
  C9. While Firebase is initialised, \<^verbatim>\<open>get_stats\<close> returns, for every content of
  \<^verbatim>\<open>/help_requests\<close>, the number of dictionaries whose status is \<^verbatim>\<open>pending\<close>,
  \<^verbatim>\<open>resolved\<close> and \<^verbatim>\<open>timeout\<close>, and their sum as \<^verbatim>\<open>total\<close>; a store with two
  pending records, one resolved and one timed out gives 2, 1, 1 and 4.
\<close>

theorem get_stats_counts:
  assumes "app db"
  shows "get_stats db =
           \<lparr>pending = count_status PENDING (help_requests db),
            resolved = count_status RESOLVED (help_requests db),
            timeout = count_status TIMEOUT (help_requests db),
            total = count_status PENDING (help_requests db)
                  + count_status RESOLVED (help_requests db)
                  + count_status TIMEOUT (help_requests db)\<rparr>
       \<and> total (get_stats db)
           = pending (get_stats db) + resolved (get_stats db) + timeout (get_stats db)
       \<and> (count_status PENDING (help_requests db) = 2
            \<and> count_status RESOLVED (help_requests db) = 1
            \<and> count_status TIMEOUT (help_requests db) = 1
          \<longrightarrow> get_stats db = \<lparr>pending = 2, resolved = 1, timeout = 1, total = 4\<rparr>)"
proof (cases "help_requests db = []")
  case True
  with assms show ?thesis
    by (simp add: get_stats_def get_db_ref_def zero_stats_def count_status_Nil)
next
  case False
  with assms show ?thesis
    by (simp add: get_stats_def get_db_ref_def Let_def)
qed

theorem get_stats_counts_witness:
  "app example_mixed_db
   \<and> get_stats example_mixed_db = \<lparr>pending = 2, resolved = 1, timeout = 1, total = 4\<rparr>"
proof -
  have c: "count_status PENDING (help_requests example_mixed_db) = 2"
          "count_status RESOLVED (help_requests example_mixed_db) = 1"
          "count_status TIMEOUT (help_requests example_mixed_db) = 1"
    by (simp_all add: example_mixed_db_def example_db_def count_status_def dict_get_def
          example_pending_def example_resolved_def example_timed_out_def
          help_request_data_of_def resolved_data_def dict_set_def Let_def)
  have a: "app example_mixed_db"
    by (simp add: example_mixed_db_def example_db_def)
  from get_stats_counts [OF a] c a show ?thesis
    by simp
qed

subsection \<open>Broadcast\<close>

lemma send_all_eq:
  "send_all send_json msg cs =
     (filter (\<lambda>c. \<not> send_json c msg) cs,
      map (\<lambda>c. if send_json c msg then Sent c msg else SendFailed c msg) cs)"
  by (induction cs) (auto simp: Let_def)

lemma active_disconnect:
  "active_connections (disconnect ws mgr) = remove1 ws (active_connections mgr)"
  by (simp add: disconnect_def remove1_idem)

lemma journal_disconnect: "journal (disconnect ws mgr) = journal mgr"
  by (simp add: disconnect_def)

lemma active_disconnect_all:
  "active_connections (disconnect_all fs mgr) = fold remove1 fs (active_connections mgr)"
  by (induction fs arbitrary: mgr) (simp_all add: active_disconnect)

lemma journal_disconnect_all: "journal (disconnect_all fs mgr) = journal mgr"
  by (induction fs arbitrary: mgr) (simp_all add: journal_disconnect)

lemma filter_fold_remove1:
  "filter Q (fold remove1 fs ys) = fold remove1 fs (filter Q ys)"
  by (induction fs arbitrary: ys) (simp_all add: filter_remove1)

lemma fold_remove1_self: "fold remove1 zs (zs @ ws) = ws"
  by (induction zs) simp_all

lemma fold_remove1_notin: "set fs \<inter> set ys = {} \<Longrightarrow> fold remove1 fs ys = ys"
  by (induction fs arbitrary: ys) (simp_all add: remove1_idem)

lemma fold_remove1_failed:
  "fold remove1 (filter (\<lambda>c. \<not> P c) xs) xs = filter P xs"
proof -
  let ?f = "filter (\<lambda>c. \<not> P c) xs"
  let ?r = "fold remove1 ?f xs"
  have "filter (\<lambda>c. \<not> P c) ?r = fold remove1 ?f ?f"
    by (rule filter_fold_remove1)
  also have "\<dots> = []"
    using fold_remove1_self [of ?f "[]"] by (simp only: append_Nil2)
  finally have e: "filter (\<lambda>c. \<not> P c) ?r = []" .
  have all: "filter P ?r = ?r"
  proof (rule filter_True, rule ballI)
    fix c assume c: "c \<in> set ?r"
    show "P c"
    proof (rule ccontr)
      assume "\<not> P c"
      with c have "c \<in> set (filter (\<lambda>c. \<not> P c) ?r)" by simp
      with e show False by (simp only: set_simps empty_iff)
    qed
  qed
  have "set ?f \<inter> set (filter P xs) = {}"
    by auto
  then have n: "fold remove1 ?f (filter P xs) = filter P xs"
    by (rule fold_remove1_notin)
  have "filter P ?r = fold remove1 ?f (filter P xs)"
    by (rule filter_fold_remove1)
  also note n
  finally have "filter P ?r = filter P xs" .
  with all show ?thesis by (simp only:)
qed

lemma active_broadcast:
  "active_connections (broadcast send_json msg mgr)
     = filter (\<lambda>c. send_json c msg) (active_connections mgr)"
  by (simp add: broadcast_def send_all_eq active_disconnect_all fold_remove1_failed)

lemma journal_broadcast:
  "journal (broadcast send_json msg mgr)
     = journal mgr @ Broadcast msg
         # map (\<lambda>c. if send_json c msg then Sent c msg else SendFailed c msg)
             (active_connections mgr)"
  by (simp add: broadcast_def send_all_eq journal_disconnect_all)


lemma filter_all_but_one:
  assumes i: "i < length xs" and f: "\<not> P (xs ! i)"
      and o: "\<forall>j < length xs. j \<noteq> i \<longrightarrow> P (xs ! j)"
  shows "filter P xs = take i xs @ drop (Suc i) xs"
proof -
  have t: "filter P (take i xs) = take i xs"
  proof (rule filter_True, rule ballI)
    fix x assume "x \<in> set (take i xs)"
    then obtain j where j: "j < length (take i xs)" and x: "x = take i xs ! j"
      unfolding in_set_conv_nth by blast
    from j i have ji: "j < i" and jl: "j < length xs" by simp_all
    from ji have "j \<noteq> i" by simp
    with o jl have "P (xs ! j)" by blast
    moreover from x ji have "x = xs ! j" by simp
    ultimately show "P x" by simp
  qed
  have d: "filter P (drop (Suc i) xs) = drop (Suc i) xs"
  proof (rule filter_True, rule ballI)
    fix x assume "x \<in> set (drop (Suc i) xs)"
    then obtain j where j: "j < length (drop (Suc i) xs)" and x: "x = drop (Suc i) xs ! j"
      unfolding in_set_conv_nth by blast
    from j have jl: "Suc i + j < length xs" by simp
    have "Suc i + j \<noteq> i" by simp
    with o jl have p: "P (xs ! (Suc i + j))" by blast
    from i have "Suc i \<le> length xs" by simp
    then have "drop (Suc i) xs ! j = xs ! (Suc i + j)" by (rule nth_drop)
    with x p show "P x" by simp
  qed
  have "filter P xs = filter P (take i xs @ xs ! i # drop (Suc i) xs)"
    by (rule arg_cong [where f = "filter P"]) (rule id_take_nth_drop [OF i])
  also have "\<dots> = filter P (take i xs) @ filter P (xs ! i # drop (Suc i) xs)"
    by (rule filter_append)
  also have "\<dots> = take i xs @ drop (Suc i) xs"
    using f by (simp only: t d filter.simps if_False)
  finally show ?thesis .
qed

text \<open>
  C4. One call of \<^verbatim>\<open>broadcast\<close> journals the call and one attempted send per registered
  connection, in registration order, and leaves in the registry exactly the connections
  whose send returned; the caller (a notification given a dictionary) returns normally
  whatever the sends did. When the send of exactly one connection, the \<open>i\<close>-th, fails,
  every other connection is sent the message, the registry loses that one connection
  (its length goes from N to N - 1), and the next broadcast attempts exactly the
  remaining connections.
\<close>

theorem broadcast_best_effort:
  "journal (broadcast send_json msg mgr)
     = journal mgr @ Broadcast msg # map (outcome send_json msg) (active_connections mgr)
   \<and> active_connections (broadcast send_json msg mgr)
     = filter (\<lambda>c. send_json c msg) (active_connections mgr)
   \<and> fst (notify build send_json (AsDict request_data) mgr) = Inr ()
   \<and> (i < length (active_connections mgr)
        \<and> \<not> send_json (active_connections mgr ! i) msg
        \<and> (\<forall>j < length (active_connections mgr). j \<noteq> i \<longrightarrow> send_json (active_connections mgr ! j) msg)
      \<longrightarrow> map (outcome send_json msg) (active_connections mgr)
            = map (\<lambda>c. Sent c msg) (take i (active_connections mgr))
              @ SendFailed (active_connections mgr ! i) msg
              # map (\<lambda>c. Sent c msg) (drop (Suc i) (active_connections mgr))
          \<and> active_connections (broadcast send_json msg mgr)
            = take i (active_connections mgr) @ drop (Suc i) (active_connections mgr)
          \<and> length (active_connections (broadcast send_json msg mgr))
            = length (active_connections mgr) - 1
          \<and> journal (broadcast send_json' msg' (broadcast send_json msg mgr))
            = journal (broadcast send_json msg mgr) @ Broadcast msg'
              # map (outcome send_json' msg')
                  (take i (active_connections mgr) @ drop (Suc i) (active_connections mgr)))"
proof (intro conjI impI)
  let ?cs = "active_connections mgr"
  have j: "\<And>s m g. journal (broadcast s m g)
             = journal g @ Broadcast m # map (outcome s m) (active_connections g)"
    by (simp add: journal_broadcast outcome_def)
  show "journal (broadcast send_json msg mgr)
          = journal mgr @ Broadcast msg # map (outcome send_json msg) ?cs"
    by (rule j)
  show "active_connections (broadcast send_json msg mgr) = filter (\<lambda>c. send_json c msg) ?cs"
    by (rule active_broadcast)
  show "fst (notify build send_json (AsDict request_data) mgr) = Inr ()"
    by (simp add: notify_def)
  assume h: "i < length ?cs \<and> \<not> send_json (?cs ! i) msg
               \<and> (\<forall>j < length ?cs. j \<noteq> i \<longrightarrow> send_json (?cs ! j) msg)"
  then have i: "i < length ?cs" and f: "\<not> send_json (?cs ! i) msg"
    and o: "\<forall>j < length ?cs. j \<noteq> i \<longrightarrow> send_json (?cs ! j) msg"
    by simp_all
  have flt: "filter (\<lambda>c. send_json c msg) ?cs = take i ?cs @ drop (Suc i) ?cs"
    using i f o by (rule filter_all_but_one)
  show a: "active_connections (broadcast send_json msg mgr) = take i ?cs @ drop (Suc i) ?cs"
    by (simp add: active_broadcast flt)
  have split: "?cs = take i ?cs @ ?cs ! i # drop (Suc i) ?cs"
    using i by (rule id_take_nth_drop)
  have t: "map (outcome send_json msg) (take i ?cs) = map (\<lambda>c. Sent c msg) (take i ?cs)"
  proof (rule map_cong [OF refl])
    fix x assume "x \<in> set (take i ?cs)"
    then have "x \<in> set (filter (\<lambda>c. send_json c msg) ?cs)" by (simp add: flt)
    then show "outcome send_json msg x = Sent x msg" by (simp add: outcome_def)
  qed
  have d: "map (outcome send_json msg) (drop (Suc i) ?cs)
             = map (\<lambda>c. Sent c msg) (drop (Suc i) ?cs)"
  proof (rule map_cong [OF refl])
    fix x assume "x \<in> set (drop (Suc i) ?cs)"
    then have "x \<in> set (filter (\<lambda>c. send_json c msg) ?cs)" by (simp add: flt)
    then show "outcome send_json msg x = Sent x msg" by (simp add: outcome_def)
  qed
  have "map (outcome send_json msg) ?cs
          = map (outcome send_json msg) (take i ?cs)
            @ outcome send_json msg (?cs ! i) # map (outcome send_json msg) (drop (Suc i) ?cs)"
    by (subst split) (simp only: map_append list.map)
  also have "\<dots> = map (\<lambda>c. Sent c msg) (take i ?cs) @ SendFailed (?cs ! i) msg
                     # map (\<lambda>c. Sent c msg) (drop (Suc i) ?cs)"
    using f by (simp only: t d outcome_def if_False)
  finally show "map (outcome send_json msg) ?cs
          = map (\<lambda>c. Sent c msg) (take i ?cs) @ SendFailed (?cs ! i) msg
                     # map (\<lambda>c. Sent c msg) (drop (Suc i) ?cs)" .
  show "length (active_connections (broadcast send_json msg mgr)) = length ?cs - 1"
    using i by (simp add: a)
  show "journal (broadcast send_json' msg' (broadcast send_json msg mgr))
          = journal (broadcast send_json msg mgr) @ Broadcast msg'
            # map (outcome send_json' msg') (take i ?cs @ drop (Suc i) ?cs)"
    by (simp only: j a)
qed

theorem broadcast_best_effort_witness:
  "journal (broadcast (\<lambda>c m. c \<noteq> 2) example_message example_manager)
     = [Broadcast example_message, Sent 1 example_message, SendFailed 2 example_message,
        Sent 3 example_message]
   \<and> active_connections (broadcast (\<lambda>c m. c \<noteq> 2) example_message example_manager) = [1, 3]
   \<and> journal (broadcast (\<lambda>c m. True) example_message
               (broadcast (\<lambda>c m. c \<noteq> 2) example_message example_manager))
     = [Broadcast example_message, Sent 1 example_message, SendFailed 2 example_message,
        Sent 3 example_message,
        Broadcast example_message, Sent 1 example_message, Sent 3 example_message]"
proof -
  have h: "(1::nat) < length (active_connections example_manager)
           \<and> \<not> (active_connections example_manager ! 1 \<noteq> 2)
           \<and> (\<forall>j < length (active_connections example_manager).
                 j \<noteq> 1 \<longrightarrow> active_connections example_manager ! j \<noteq> 2)"
    by (simp add: example_manager_def nth_Cons' All_less_Suc numeral_3_eq_3)
  have c: "active_connections example_manager = [1, 2, 3]" "journal example_manager = []"
    by (simp_all add: example_manager_def)
  from broadcast_best_effort [of "\<lambda>c m. c \<noteq> 2" example_message example_manager
          "\<lambda>d. example_message" "[]" 1 "\<lambda>c m. True" example_message] h
  show ?thesis
    by (simp add: c outcome_def)
qed

subsection \<open>Create\<close>

lemma HelpRequestResponse_of_created:
  "HelpRequestResponse_of
     (help_request_data_of L request_id now1 now2 question caller_info session_id)
   = Inr \<lparr>hr_id = request_id, hr_question = question,
          hr_caller_info = Some (if caller_info \<noteq> [] then caller_info else ''Anonymous''),
          hr_status = PENDING, hr_created_at = isoformat L now1, hr_resolved_at = None,
          hr_timeout_at = isoformat L (now2 + timedelta_hours 2), hr_answer = None,
          hr_answered_by = None, hr_session_id = session_id\<rparr>"
  by (simp add: HelpRequestResponse_of_def valid_help_request_def help_request_data_of_def
        dict_get_def Let_def)

lemma create_help_request_online:
  "app db \<Longrightarrow>
   create_help_request L request_id now1 now2 question caller_info session_id db
   = (HelpRequestResponse_of
        (help_request_data_of L request_id now1 now2 question caller_info session_id),
      db\<lparr>help_requests :=
           AList.update request_id
             (Dict (help_request_data_of L request_id now1 now2 question caller_info session_id))
             (help_requests db)\<rparr>)"
  by (simp add: create_help_request_def get_db_ref_def Let_def)

text \<open>
  C8. While Firebase is initialised, \<^verbatim>\<open>create_help_request\<close> returns, for every question
  (the non-empty ones included), an escalation with status \<^verbatim>\<open>pending\<close> and with
  \<^verbatim>\<open>resolved_at\<close>, \<^verbatim>\<open>answer\<close> and \<^verbatim>\<open>answered_by\<close> absent. \<^verbatim>\<open>created_at\<close> is the
  first clock reading and \<^verbatim>\<open>timeout_at\<close> the second one plus two hours
  (\<^verbatim>\<open>timedelta(hours=2)\<close>, 7200 seconds in microseconds): the deadline differs from
  \<^verbatim>\<open>created_at\<close> plus two hours by the time between the two readings, so it is within
  every tolerance that bounds that time, and equal when the readings agree.
\<close>

theorem create_help_request_pending:
  assumes "app db"
  shows "\<exists>r. fst (create_help_request L request_id now1 now2 question caller_info session_id db)
               = Inr r
             \<and> hr_status r = PENDING
             \<and> hr_resolved_at r = None \<and> hr_answer r = None \<and> hr_answered_by r = None
             \<and> hr_created_at r = isoformat L now1
             \<and> hr_timeout_at r = isoformat L (now2 + timedelta_hours 2)
             \<and> timedelta_hours 2 = 2 * 60 * 60 * 1000000
             \<and> (\<forall>tolerance. \<bar>now2 - now1\<bar> \<le> tolerance
                   \<longrightarrow> \<bar>(now2 + timedelta_hours 2) - (now1 + timedelta_hours 2)\<bar> \<le> tolerance)
             \<and> (now2 = now1 \<longrightarrow> hr_timeout_at r = isoformat L (now1 + timedelta_hours 2))"
  using assms
  by (simp add: create_help_request_online HelpRequestResponse_of_created timedelta_hours_def)

theorem create_help_request_pending_witness:
  "app (example_db [])
   \<and> fst (create_help_request example_stdlib ''r1'' 0 0
            ''Do you do hair transplants?'' ''555-0101'' ''room-42'' (example_db []))
     = Inr \<lparr>hr_id = ''r1'', hr_question = ''Do you do hair transplants?'',
            hr_caller_info = Some ''555-0101'', hr_status = PENDING,
            hr_created_at = ''1970-01-01T00:00:00'', hr_resolved_at = None,
            hr_timeout_at = ''1970-01-01T02:00:00'', hr_answer = None,
            hr_answered_by = None, hr_session_id = ''room-42''\<rparr>"
proof -
  have a: "app (example_db [])" by (simp add: example_db_def)
  from create_help_request_pending [OF a, of example_stdlib "''r1''" 0 0
         "''Do you do hair transplants?''" "''555-0101''" "''room-42''"]
  obtain r where "fst (create_help_request example_stdlib ''r1'' 0 0
            ''Do you do hair transplants?'' ''555-0101'' ''room-42'' (example_db [])) = Inr r"
    by blast
  with a show ?thesis
    by (simp add: create_help_request_online HelpRequestResponse_of_created timedelta_hours_def
          example_stdlib_def example_isoformat_def)
qed

text \<open>
  C6 as stated fails: \<^verbatim>\<open>create_help_request\<close> called with the empty question returns
  the pending escalation and persists its record.
\<close>

theorem create_help_request_empty_question_counterexample:
  "fst (create_help_request example_stdlib ''r9'' 0 0 [] ''555-0101'' ''room-42'' (example_db []))
     = Inr \<lparr>hr_id = ''r9'', hr_question = [],
            hr_caller_info = Some ''555-0101'', hr_status = PENDING,
            hr_created_at = ''1970-01-01T00:00:00'', hr_resolved_at = None,
            hr_timeout_at = ''1970-01-01T02:00:00'', hr_answer = None,
            hr_answered_by = None, hr_session_id = ''room-42''\<rparr>
   \<and> map_of (help_requests (snd (create_help_request example_stdlib ''r9'' 0 0 []
                                   ''555-0101'' ''room-42'' (example_db [])))) ''r9''
     = Some (Dict (help_request_data_of example_stdlib ''r9'' 0 0 [] ''555-0101'' ''room-42''))"
proof -
  have a: "app (example_db [])" by (simp add: example_db_def)
  show ?thesis
    by (simp add: create_help_request_online [OF a] HelpRequestResponse_of_created
          timedelta_hours_def example_stdlib_def example_isoformat_def update_conv')
qed

text \<open>
  C6, amended. Neither \<^verbatim>\<open>create_help_request\<close> nor the create route checks the
  question: the route's request body declares \<^verbatim>\<open>question: str\<close> with no length
  constraint. While Firebase is initialised, for every question, the empty one included,
  the service persists the record under the generated id and returns the pending
  escalation carrying that question, and the route answers with it.
\<close>

theorem create_help_request_any_question:
  assumes "app db"
  shows "\<exists>r. fst (create_help_request L request_id now1 now2 question caller_info session_id db)
               = Inr r
             \<and> hr_id r = request_id \<and> hr_question r = question \<and> hr_status r = PENDING
             \<and> map_of (help_requests
                   (snd (create_help_request L request_id now1 now2 question caller_info
                           session_id db))) request_id
               = Some (Dict (help_request_data_of L request_id now1 now2 question caller_info
                               session_id))
             \<and> dict_get (help_request_data_of L request_id now1 now2 question caller_info
                           session_id) ''question'' = JStr question
             \<and> fst (create_help_request_route L send_json request_id now1 now2 ts question
                       caller_info session_id (db, mgr))
               = Response r"
proof -
  have q: "dict_get (help_request_data_of L request_id now1 now2 question caller_info
                       session_id) ''question'' = JStr question"
    by (simp add: help_request_data_of_def dict_get_def Let_def)
  from assms q show ?thesis
    by (simp add: create_help_request_route_def create_help_request_online
          HelpRequestResponse_of_created update_conv')
qed

theorem create_help_request_any_question_witness:
  "app (example_db [])
   \<and> (\<exists>r. fst (create_help_request example_stdlib ''r9'' 0 0 [] ''555-0101'' ''room-42''
                   (example_db [])) = Inr r
          \<and> hr_question r = []
          \<and> fst (create_help_request_route example_stdlib (\<lambda>c m. True) ''r9'' 0 0 0 []
                    ''555-0101'' ''room-42'' (example_db [], example_manager))
            = Response r)"
proof -
  have a: "app (example_db [])" by (simp add: example_db_def)
  from create_help_request_any_question [OF a, of example_stdlib "''r9''" 0 0 "[]"
         "''555-0101''" "''room-42''" "\<lambda>c m. True" 0 example_manager] a
  show ?thesis by blast
qed

subsection \<open>Store failures\<close>

text \<open>
  C5 as stated fails: with Firebase not initialised, every access to the store raises
  \<^verbatim>\<open>RuntimeError\<close>, and the list, statistics and single-record queries return the empty
  list, zeroed statistics and \<^verbatim>\<open>None\<close> instead of the error.
\<close>

theorem store_error_swallowed_counterexample:
  "get_db_ref example_offline_db = Inl RuntimeError
   \<and> get_all_help_requests example_offline_db = []
   \<and> get_help_requests example_offline_db = Response []
   \<and> get_stats example_offline_db = \<lparr>pending = 0, resolved = 0, timeout = 0, total = 0\<rparr>
   \<and> get_stats_route example_offline_db
     = Response \<lparr>pending = 0, resolved = 0, timeout = 0, total = 0\<rparr>
   \<and> get_request_by_id ''r1'' example_offline_db = None"
  by (simp add: example_offline_db_def get_db_ref_def get_all_help_requests_def
        get_help_requests_def get_stats_def get_stats_route_def get_request_by_id_def
        zero_stats_def)

text \<open>
  C5, amended. When the store fails, \<^verbatim>\<open>create_help_request\<close> and \<^verbatim>\<open>answer_request\<close>
  propagate the error to their caller (their routes answer 500) and leave the store as it
  was; \<^verbatim>\<open>get_request_by_id\<close>, \<^verbatim>\<open>get_all_help_requests\<close> and \<^verbatim>\<open>get_stats\<close> catch it
  and return \<^verbatim>\<open>None\<close> (the route answers 404), the empty list and zeroed statistics
  (the routes answer normally).
\<close>

theorem store_error_propagation:
  assumes "\<not> app db"
  shows "create_help_request L request_id now1 now2 question caller_info session_id db
           = (Inl RuntimeError, db)
       \<and> create_help_request_route L send_json request_id now1 now2 ts question caller_info
           session_id (db, mgr)
           = (HTTPException 500, db, mgr)
       \<and> answer_request L now new_kb_id kb_now request_id answer_data db = (Inl RuntimeError, db)
       \<and> answer_help_request L send_json now new_kb_id kb_now ts request_id answer
           supervisor_name (db, mgr)
           = (HTTPException 500, db, mgr)
       \<and> get_request_by_id request_id db = None
       \<and> get_help_request request_id db = HTTPException 404
       \<and> get_all_help_requests db = []
       \<and> get_help_requests db = Response []
       \<and> get_stats db = zero_stats
       \<and> get_stats_route db = Response zero_stats"
proof -
  from assms have r: "get_db_ref db = Inl RuntimeError"
    by (simp add: get_db_ref_def)
  have c: "create_help_request L request_id now1 now2 question caller_info session_id db
             = (Inl RuntimeError, db)"
    by (simp add: create_help_request_def r Let_def)
  have a: "\<And>d. answer_request L now new_kb_id kb_now request_id d db = (Inl RuntimeError, db)"
    by (simp add: answer_request_def r)
  have ar: "answer_help_request L send_json now new_kb_id kb_now ts request_id answer
              supervisor_name (db, mgr) = (HTTPException 500, db, mgr)"
    by (cases "HelpRequestAnswer_of answer supervisor_name")
       (simp_all add: answer_help_request_def a)
  have g: "get_request_by_id request_id db = None"
    by (simp add: get_request_by_id_def r)
  have l: "get_all_help_requests db = []"
    by (simp add: get_all_help_requests_def r)
  have s: "get_stats db = zero_stats"
    by (simp add: get_stats_def r)
  show ?thesis
    by (simp add: c a ar g l s create_help_request_route_def get_help_request_def
          get_help_requests_def get_stats_route_def)
qed

theorem store_error_propagation_witness:
  "\<not> app example_offline_db
   \<and> create_help_request example_stdlib ''r1'' 0 0 ''Do you do hair transplants?''
        ''555-0101'' ''room-42'' example_offline_db
     = (Inl RuntimeError, example_offline_db)
   \<and> answer_request example_stdlib 0 ''k1'' 0 ''r1'' example_answer example_offline_db
     = (Inl RuntimeError, example_offline_db)
   \<and> get_help_request ''r1'' example_offline_db = HTTPException 404
   \<and> get_help_requests example_offline_db = Response []
   \<and> get_stats_route example_offline_db = Response zero_stats"
proof -
  have a: "\<not> app example_offline_db"
    by (simp add: example_offline_db_def)
  from store_error_propagation [OF a, of example_stdlib "''r1''" 0 0
         "''Do you do hair transplants?''" "''555-0101''" "''room-42''" "\<lambda>c m. True" 0
         example_manager 0 "''k1''" 0 example_answer "''24 hours notice required''"
         "''Sarah''"] a
  show ?thesis by simp
qed

subsection \<open>Dictionaries and the example records\<close>

lemma dict_get_dict_set:
  "dict_get (dict_set d k v) k' = (if k' = k then v else dict_get d k')"
  by (simp add: dict_get_def dict_set_def update_conv')

lemma map_of_dict_set:
  "map_of (dict_set d k v) k' = (if k' = k then Some v else map_of d k')"
  by (simp add: dict_set_def update_conv')

lemma dict_set_not_Nil: "dict_set d k v \<noteq> []"
  by (cases d) (auto simp: dict_set_def)

lemma dict_get_resolved_data:
  "dict_get (resolved_data L now answer_data d) k =
     (if k = ''resolved_at'' then JStr (isoformat L now)
      else if k = ''answered_by'' then JStr (ans_supervisor_name answer_data)
      else if k = ''answer'' then JStr (ans_answer answer_data)
      else if k = ''status'' then JStr RESOLVED
      else dict_get d k)"
  by (simp add: resolved_data_def dict_get_dict_set)

lemma map_of_resolved_data_question:
  "map_of (resolved_data L now answer_data d) ''question'' = map_of d ''question''"
  by (simp add: resolved_data_def map_of_dict_set)

lemma valid_resolved_data:
  "valid_help_request (resolved_data L now answer_data d) \<longleftrightarrow>
     is_str (dict_get d ''id'') \<and> is_str (dict_get d ''question'')
     \<and> is_opt_str (dict_get d ''caller_info'') \<and> is_str (dict_get d ''created_at'')
     \<and> is_str (dict_get d ''timeout_at'') \<and> is_str (dict_get d ''session_id'')"
  by (simp add: valid_help_request_def dict_get_resolved_data)

lemma is_str_dict_get:
  "is_str (dict_get d k) \<Longrightarrow> \<exists>s. map_of d k = Some (JStr s)"
  by (cases "map_of d k"; cases "dict_get d k") (auto simp: dict_get_def)

lemmas example_record_defs =
  example_pending_def example_resolved_def example_timed_out_def help_request_data_of_def
  resolved_data_def dict_set_def example_answer_def example_stdlib_def example_isoformat_def
  timedelta_hours_def Let_def

lemma example_mixed_db_app: "app example_mixed_db"
  by (simp add: example_mixed_db_def example_db_def)

lemma example_mixed_db_lookup:
  "map_of (help_requests example_mixed_db) ''r1'' = Some (Dict (example_pending ''r1''))"
  "map_of (help_requests example_mixed_db) ''r2'' = Some (Dict (example_pending ''r2''))"
  "map_of (help_requests example_mixed_db) ''r3'' = Some (Dict (example_resolved ''r3''))"
  "map_of (help_requests example_mixed_db) ''r4'' = Some (Dict (example_timed_out ''r4''))"
  by (simp_all add: example_mixed_db_def example_db_def)

lemma example_records_valid:
  "valid_help_request (example_pending request_id)"
  "valid_help_request (example_resolved request_id)"
  "valid_help_request (example_timed_out request_id)"
  by (simp_all add: valid_help_request_def dict_get_def example_record_defs)

subsection \<open>Resolve\<close>

lemma answer_request_found:
  assumes "app db" and "map_of (help_requests db) request_id = Some (Dict d)" and "d \<noteq> []"
  shows "answer_request L now new_kb_id kb_now request_id answer_data db =
     (let d' = resolved_data L now answer_data d;
          db1 = db\<lparr>help_requests := AList.update request_id (Dict d') (help_requests db)\<rparr>
      in case map_of d ''question'' of
           None \<Rightarrow> (Inl KeyError, db1)
         | Some question \<Rightarrow>
             (let db2 = db1\<lparr>knowledge_base :=
                   AList.update new_kb_id
                     (Dict (kb_entry_data_of L new_kb_id kb_now question (ans_answer answer_data)))
                     (knowledge_base db1)\<rparr>
              in case question of
                   JStr q \<Rightarrow> (HelpRequestResponse_of d', db2)
                 | _ \<Rightarrow> (Inl TypeError, db2)))"
  using assms
  by (simp add: answer_request_def get_db_ref_def Let_def dict_item_def
        map_of_resolved_data_question add_to_knowledge_base_def
        split: option.split jval.split)


lemma valid_resolved_data_of_valid:
  "valid_help_request d \<Longrightarrow> valid_help_request (resolved_data L now answer_data d)"
  by (simp add: valid_resolved_data) (simp add: valid_help_request_def)

lemma valid_not_Nil: "valid_help_request d \<Longrightarrow> d \<noteq> []"
  by (auto simp: valid_help_request_def dict_get_def)

lemma valid_question: "valid_help_request d \<Longrightarrow> \<exists>q. map_of d ''question'' = Some (JStr q)"
  by (rule is_str_dict_get) (simp add: valid_help_request_def)

lemma answer_request_valid:
  assumes "app db" and "map_of (help_requests db) request_id = Some (Dict d)"
      and "valid_help_request d"
  shows "answer_request L now new_kb_id kb_now request_id answer_data db =
     (HelpRequestResponse_of (resolved_data L now answer_data d),
      db\<lparr>help_requests :=
           AList.update request_id (Dict (resolved_data L now answer_data d)) (help_requests db),
         knowledge_base :=
           AList.update new_kb_id
             (Dict (kb_entry_data_of L new_kb_id kb_now (dict_get d ''question'')
                      (ans_answer answer_data)))
             (knowledge_base db)\<rparr>)"
proof -
  from assms(3) obtain q where q: "map_of d ''question'' = Some (JStr q)"
    using valid_question by blast
  then have g: "dict_get d ''question'' = JStr q"
    by (simp add: dict_get_def)
  from assms(3) have n: "d \<noteq> []" by (rule valid_not_Nil)
  show ?thesis
    by (simp add: answer_request_found [OF assms(1,2) n] q g Let_def)
qed

lemma HelpRequestResponse_of_resolved:
  assumes "valid_help_request d"
  shows "\<exists>r. HelpRequestResponse_of (resolved_data L now answer_data d) = Inr r
             \<and> hr_status r = RESOLVED
             \<and> hr_answer r = Some (ans_answer answer_data)
             \<and> hr_answered_by r = Some (ans_supervisor_name answer_data)
             \<and> hr_resolved_at r = Some (isoformat L now)
             \<and> hr_id r = str_of (dict_get d ''id'')
             \<and> hr_question r = str_of (dict_get d ''question'')"
  using valid_resolved_data_of_valid [OF assms, of L now answer_data]
  by (simp add: HelpRequestResponse_of_def dict_get_resolved_data)

text \<open>
  C1 as stated fails: \<^verbatim>\<open>answer_request\<close> on the record \<^verbatim>\<open>r4\<close>, whose status is
  \<^verbatim>\<open>timeout\<close>, and on the record \<^verbatim>\<open>r3\<close>, whose status is \<^verbatim>\<open>resolved\<close>, returns the
  record as resolved with the new answer, and the stored record changes.
\<close>

theorem answer_request_terminal_counterexample:
  "dict_get (example_timed_out ''r4'') ''status'' = JStr TIMEOUT
   \<and> map_of (help_requests example_mixed_db) ''r4'' = Some (Dict (example_timed_out ''r4''))
   \<and> fst (answer_request example_stdlib 7200000000 ''k1'' 7200000000 ''r4'' example_answer
            example_mixed_db)
     = Inr \<lparr>hr_id = ''r4'', hr_question = ''Do you do hair transplants?'',
            hr_caller_info = Some ''555-0101'', hr_status = RESOLVED,
            hr_created_at = ''1970-01-01T00:00:00'',
            hr_resolved_at = Some ''1970-01-01T02:00:00'',
            hr_timeout_at = ''1970-01-01T02:00:00'',
            hr_answer = Some ''24 hours notice required'',
            hr_answered_by = Some ''Sarah'', hr_session_id = ''room-42''\<rparr>
   \<and> dict_get (example_resolved ''r3'') ''status'' = JStr RESOLVED
   \<and> map_of (help_requests example_mixed_db) ''r3'' = Some (Dict (example_resolved ''r3''))
   \<and> fst (answer_request example_stdlib 0 ''k1'' 0 ''r3''
            \<lparr>ans_answer = ''Sorry, we do not'', ans_supervisor_name = ''Omar''\<rparr> example_mixed_db)
     = Inr \<lparr>hr_id = ''r3'', hr_question = ''Do you do hair transplants?'',
            hr_caller_info = Some ''555-0101'', hr_status = RESOLVED,
            hr_created_at = ''1970-01-01T00:00:00'',
            hr_resolved_at = Some ''1970-01-01T00:00:00'',
            hr_timeout_at = ''1970-01-01T02:00:00'',
            hr_answer = Some ''Sorry, we do not'',
            hr_answered_by = Some ''Omar'', hr_session_id = ''room-42''\<rparr>
   \<and> map_of (help_requests
         (snd (answer_request example_stdlib 0 ''k1'' 0 ''r3''
                 \<lparr>ans_answer = ''Sorry, we do not'', ans_supervisor_name = ''Omar''\<rparr>
                 example_mixed_db))) ''r3''
     \<noteq> map_of (help_requests example_mixed_db) ''r3''"
proof -
  have s4: "dict_get (example_timed_out ''r4'') ''status'' = JStr TIMEOUT"
    by (simp add: dict_get_def example_record_defs)
  have s3: "dict_get (example_resolved ''r3'') ''status'' = JStr RESOLVED"
    by (simp add: dict_get_def example_record_defs)
  have a4: "fst (answer_request example_stdlib 7200000000 ''k1'' 7200000000 ''r4'' example_answer
            example_mixed_db)
     = Inr \<lparr>hr_id = ''r4'', hr_question = ''Do you do hair transplants?'',
            hr_caller_info = Some ''555-0101'', hr_status = RESOLVED,
            hr_created_at = ''1970-01-01T00:00:00'',
            hr_resolved_at = Some ''1970-01-01T02:00:00'',
            hr_timeout_at = ''1970-01-01T02:00:00'',
            hr_answer = Some ''24 hours notice required'',
            hr_answered_by = Some ''Sarah'', hr_session_id = ''room-42''\<rparr>"
    by (simp add: answer_request_valid [OF example_mixed_db_app example_mixed_db_lookup(4)
                    example_records_valid(3)])
       (simp add: HelpRequestResponse_of_def valid_help_request_def dict_get_def
          example_record_defs)
  note v3 = answer_request_valid [OF example_mixed_db_app example_mixed_db_lookup(3)
                    example_records_valid(2)]
  have a3: "fst (answer_request example_stdlib 0 ''k1'' 0 ''r3''
            \<lparr>ans_answer = ''Sorry, we do not'', ans_supervisor_name = ''Omar''\<rparr> example_mixed_db)
     = Inr \<lparr>hr_id = ''r3'', hr_question = ''Do you do hair transplants?'',
            hr_caller_info = Some ''555-0101'', hr_status = RESOLVED,
            hr_created_at = ''1970-01-01T00:00:00'',
            hr_resolved_at = Some ''1970-01-01T00:00:00'',
            hr_timeout_at = ''1970-01-01T02:00:00'',
            hr_answer = Some ''Sorry, we do not'',
            hr_answered_by = Some ''Omar'', hr_session_id = ''room-42''\<rparr>"
    by (simp add: v3)
       (simp add: HelpRequestResponse_of_def valid_help_request_def dict_get_def
          example_record_defs)
  have c3: "map_of (help_requests
         (snd (answer_request example_stdlib 0 ''k1'' 0 ''r3''
                 \<lparr>ans_answer = ''Sorry, we do not'', ans_supervisor_name = ''Omar''\<rparr>
                 example_mixed_db))) ''r3''
     \<noteq> map_of (help_requests example_mixed_db) ''r3''"
    by (simp add: v3 update_conv' example_mixed_db_lookup)
       (simp add: example_record_defs)
  from s4 s3 a4 a3 c3 example_mixed_db_lookup(3,4) show ?thesis
    by (intro conjI)
qed

lemma answer_request_scalar:
  assumes "app db" and "map_of (help_requests db) request_id = Some (Scalar v)"
      and "truthy_jval v"
  shows "answer_request L now new_kb_id kb_now request_id answer_data db = (Inl TypeError, db)"
  using assms by (simp add: answer_request_def get_db_ref_def)

lemma HelpRequestResponse_of_resolved_iff:
  "(\<exists>r. HelpRequestResponse_of (resolved_data L now answer_data d) = Inr r)
     \<longleftrightarrow> is_str (dict_get d ''id'') \<and> is_str (dict_get d ''question'')
          \<and> is_opt_str (dict_get d ''caller_info'') \<and> is_str (dict_get d ''created_at'')
          \<and> is_str (dict_get d ''timeout_at'') \<and> is_str (dict_get d ''session_id'')"
  by (simp add: HelpRequestResponse_of_def valid_resolved_data)

text \<open>
  C1, amended. \<^verbatim>\<open>answer_request\<close> never reads the status of the stored record, and no
  write is conditional on it. While Firebase is initialised, the outcome depends on what
  is stored under the id as follows. Nothing, or a falsy value: \<^verbatim>\<open>ValueError\<close> (not
  found), the store as it was. A truthy scalar, such as the markers of
  \<^verbatim>\<open>create_initial_data\<close>: \<^verbatim>\<open>TypeError\<close>, the store as it was. A non-empty dictionary,
  whatever its status: the stored record becomes the old one with status
  \<^verbatim>\<open>resolved\<close> and the new answer, supervisor and time, and then the call raises
  \<^verbatim>\<open>KeyError\<close> when the record has no question, \<^verbatim>\<open>TypeError\<close> when its question is
  not a string, and otherwise returns what validation of the updated record gives, which
  succeeds exactly when the fields other than the four overwritten ones are well typed.
  So for every stored record that has the fields of a help request, with status
  \<^verbatim>\<open>resolved\<close> or \<^verbatim>\<open>timeout\<close> as well as \<^verbatim>\<open>pending\<close>, the call succeeds and returns
  the record as resolved.
\<close>

theorem answer_request_ignores_status:
  assumes "app db"
  shows "(\<not> truthy (map_of (help_requests db) request_id)
            \<longrightarrow> answer_request L now new_kb_id kb_now request_id answer_data db
                 = (Inl ValueError, db))
       \<and> (\<forall>v. map_of (help_requests db) request_id = Some (Scalar v) \<and> truthy_jval v
            \<longrightarrow> answer_request L now new_kb_id kb_now request_id answer_data db
                 = (Inl TypeError, db))
       \<and> (\<forall>d. map_of (help_requests db) request_id = Some (Dict d) \<and> d \<noteq> []
            \<longrightarrow> map_of (help_requests
                     (snd (answer_request L now new_kb_id kb_now request_id answer_data db)))
                     request_id
                 = Some (Dict (resolved_data L now answer_data d))
               \<and> fst (answer_request L now new_kb_id kb_now request_id answer_data db)
                 = (case map_of d ''question'' of
                      None \<Rightarrow> Inl KeyError
                    | Some (JStr q) \<Rightarrow> HelpRequestResponse_of (resolved_data L now answer_data d)
                    | Some other \<Rightarrow> Inl TypeError)
               \<and> ((\<exists>r. HelpRequestResponse_of (resolved_data L now answer_data d) = Inr r)
                    \<longleftrightarrow> is_str (dict_get d ''id'') \<and> is_str (dict_get d ''question'')
                         \<and> is_opt_str (dict_get d ''caller_info'')
                         \<and> is_str (dict_get d ''created_at'')
                         \<and> is_str (dict_get d ''timeout_at'')
                         \<and> is_str (dict_get d ''session_id'')))
       \<and> (\<forall>d. map_of (help_requests db) request_id = Some (Dict d) \<and> valid_help_request d
            \<longrightarrow> (\<exists>r. fst (answer_request L now new_kb_id kb_now request_id answer_data db)
                         = Inr r
                      \<and> hr_status r = RESOLVED
                      \<and> hr_answer r = Some (ans_answer answer_data)
                      \<and> hr_answered_by r = Some (ans_supervisor_name answer_data)
                      \<and> hr_resolved_at r = Some (isoformat L now))
               \<and> map_of (help_requests
                     (snd (answer_request L now new_kb_id kb_now request_id answer_data db)))
                     request_id
                 = Some (Dict (resolved_data L now answer_data d))
               \<and> dict_get (resolved_data L now answer_data d) ''status'' = JStr RESOLVED)"
proof (intro conjI impI allI)
  assume "\<not> truthy (map_of (help_requests db) request_id)"
  with assms show "answer_request L now new_kb_id kb_now request_id answer_data db
                     = (Inl ValueError, db)"
    by (simp add: answer_request_def get_db_ref_def)
next
  fix v
  assume "map_of (help_requests db) request_id = Some (Scalar v) \<and> truthy_jval v"
  then show "answer_request L now new_kb_id kb_now request_id answer_data db
               = (Inl TypeError, db)"
    using answer_request_scalar [OF assms] by blast
next
  fix d
  assume h: "map_of (help_requests db) request_id = Some (Dict d) \<and> d \<noteq> []"
  then have m: "map_of (help_requests db) request_id = Some (Dict d)" and n: "d \<noteq> []"
    by simp_all
  note f = answer_request_found [OF assms m n, of L now new_kb_id kb_now answer_data]
  show "map_of (help_requests
           (snd (answer_request L now new_kb_id kb_now request_id answer_data db))) request_id
        = Some (Dict (resolved_data L now answer_data d))"
    by (simp add: f Let_def update_conv' split: option.split jval.split)
  show "fst (answer_request L now new_kb_id kb_now request_id answer_data db)
          = (case map_of d ''question'' of
               None \<Rightarrow> Inl KeyError
             | Some (JStr q) \<Rightarrow> HelpRequestResponse_of (resolved_data L now answer_data d)
             | Some other \<Rightarrow> Inl TypeError)"
    by (simp add: f Let_def split: option.split jval.split)
  show "(\<exists>r. HelpRequestResponse_of (resolved_data L now answer_data d) = Inr r)
          \<longleftrightarrow> is_str (dict_get d ''id'') \<and> is_str (dict_get d ''question'')
               \<and> is_opt_str (dict_get d ''caller_info'')
               \<and> is_str (dict_get d ''created_at'')
               \<and> is_str (dict_get d ''timeout_at'')
               \<and> is_str (dict_get d ''session_id'')"
    by (rule HelpRequestResponse_of_resolved_iff)
next
  fix d
  assume h: "map_of (help_requests db) request_id = Some (Dict d) \<and> valid_help_request d"
  then have m: "map_of (help_requests db) request_id = Some (Dict d)"
    and v: "valid_help_request d" by simp_all
  note a = answer_request_valid [OF assms m v, of L now new_kb_id kb_now answer_data]
  from HelpRequestResponse_of_resolved [OF v, of L now answer_data]
  show "\<exists>r. fst (answer_request L now new_kb_id kb_now request_id answer_data db) = Inr r
             \<and> hr_status r = RESOLVED
             \<and> hr_answer r = Some (ans_answer answer_data)
             \<and> hr_answered_by r = Some (ans_supervisor_name answer_data)
             \<and> hr_resolved_at r = Some (isoformat L now)"
    by (auto simp: a)
  show "map_of (help_requests
           (snd (answer_request L now new_kb_id kb_now request_id answer_data db))) request_id
        = Some (Dict (resolved_data L now answer_data d))"
    by (simp add: a update_conv')
  show "dict_get (resolved_data L now answer_data d) ''status'' = JStr RESOLVED"
    by (simp add: dict_get_resolved_data)
qed

theorem answer_request_ignores_status_witness:
  "app example_mixed_db
   \<and> map_of (help_requests example_mixed_db) ''r4'' = Some (Dict (example_timed_out ''r4''))
   \<and> valid_help_request (example_timed_out ''r4'')
   \<and> (\<exists>r. fst (answer_request example_stdlib 7200000000 ''k1'' 7200000000 ''r4''
                   example_answer example_mixed_db) = Inr r
          \<and> hr_status r = RESOLVED)
   \<and> \<not> truthy (map_of (help_requests example_mixed_db) ''r5'')
   \<and> answer_request example_stdlib 7200000000 ''k1'' 7200000000 ''r5'' example_answer
        example_mixed_db
     = (Inl ValueError, example_mixed_db)
   \<and> map_of (help_requests example_mixed_db) ''initialized'' = Some (Scalar (JBool True))
   \<and> answer_request example_stdlib 7200000000 ''k1'' 7200000000 ''initialized'' example_answer
        example_mixed_db
     = (Inl TypeError, example_mixed_db)"
proof -
  have n: "\<not> truthy (map_of (help_requests example_mixed_db) ''r5'')"
    by (simp add: example_mixed_db_def example_db_def)
  have i: "map_of (help_requests example_mixed_db) ''initialized'' = Some (Scalar (JBool True))"
    by (simp add: example_mixed_db_def example_db_def)
  from answer_request_ignores_status [OF example_mixed_db_app, of "''r4''" example_stdlib
         7200000000 "''k1''" 7200000000 example_answer]
    example_mixed_db_lookup(4) example_records_valid(3) [of "''r4''"]
  have "\<exists>r. fst (answer_request example_stdlib 7200000000 ''k1'' 7200000000 ''r4''
                   example_answer example_mixed_db) = Inr r
          \<and> hr_status r = RESOLVED"
    by blast
  moreover from answer_request_ignores_status [OF example_mixed_db_app, of "''r5''"
         example_stdlib 7200000000 "''k1''" 7200000000 example_answer] n
  have "answer_request example_stdlib 7200000000 ''k1'' 7200000000 ''r5'' example_answer
        example_mixed_db = (Inl ValueError, example_mixed_db)"
    by blast
  moreover from answer_request_ignores_status [OF example_mixed_db_app, of "''initialized''"
         example_stdlib 7200000000 "''k1''" 7200000000 example_answer] i
  have "answer_request example_stdlib 7200000000 ''k1'' 7200000000 ''initialized''
          example_answer example_mixed_db = (Inl TypeError, example_mixed_db)"
    by simp
  ultimately show ?thesis
    using n i example_mixed_db_app example_mixed_db_lookup(4) example_records_valid(3)
    by blast
qed

subsection \<open>Knowledge feedback\<close>

lemma update_fresh: "k \<notin> fst ` set al \<Longrightarrow> AList.update k v al = al @ [(k, v)]"
  by (induction al) auto

lemma answer_request_Inr_cases:
  assumes "fst (answer_request L now new_kb_id kb_now request_id answer_data db) = Inr r"
  shows "app db \<and> (\<exists>d q. map_of (help_requests db) request_id = Some (Dict d) \<and> d \<noteq> []
                    \<and> map_of d ''question'' = Some (JStr q))"
proof -
  from assms have a: "app db"
    by (auto simp: answer_request_def get_db_ref_def split: if_splits)
  from assms a have t: "truthy (map_of (help_requests db) request_id)"
    by (auto simp: answer_request_def get_db_ref_def Let_def split: if_splits)
  from assms a t obtain d where d: "map_of (help_requests db) request_id = Some (Dict d)"
    by (cases "map_of (help_requests db) request_id" rule: truthy.cases)
       (auto simp: answer_request_def get_db_ref_def Let_def)
  from t d have n: "d \<noteq> []" by simp
  from assms obtain q where "map_of d ''question'' = Some (JStr q)"
    unfolding answer_request_found [OF a d n]
    by (auto simp: Let_def split: option.splits jval.splits)
  with a d n show ?thesis by blast
qed

text \<open>
  C7. Whenever \<^verbatim>\<open>answer_request\<close> succeeds, the knowledge base afterwards is the one
  before with one entry written under the fresh id: its question is the stored question
  of the escalation, its answer the supplied answer, its source \<^verbatim>\<open>learned\<close> and its use
  count 0. When the id is new to the knowledge base (\<^verbatim>\<open>uuid4\<close>), the entry is appended
  and every existing entry is left as it was, whatever its question: nothing is looked
  up or merged.
\<close>

theorem answer_request_learns:
  assumes "fst (answer_request L now new_kb_id kb_now request_id answer_data db) = Inr r"
  shows "\<exists>d. map_of (help_requests db) request_id = Some (Dict d)
             \<and> dict_get d ''question'' = JStr (hr_question r)
             \<and> knowledge_base (snd (answer_request L now new_kb_id kb_now request_id answer_data db))
               = AList.update new_kb_id
                   (Dict (learned_entry L new_kb_id kb_now (hr_question r) (ans_answer answer_data)))
                   (knowledge_base db)
             \<and> (new_kb_id \<notin> fst ` set (knowledge_base db)
                  \<longrightarrow> knowledge_base
                        (snd (answer_request L now new_kb_id kb_now request_id answer_data db))
                      = knowledge_base db
                        @ [(new_kb_id,
                            Dict (learned_entry L new_kb_id kb_now (hr_question r)
                                    (ans_answer answer_data)))])"
proof -
  from answer_request_Inr_cases [OF assms]
  obtain d q where a: "app db" and d: "map_of (help_requests db) request_id = Some (Dict d)"
    and n: "d \<noteq> []" and q: "map_of d ''question'' = Some (JStr q)"
    by blast
  note f = answer_request_found [OF a d n, of L now new_kb_id kb_now answer_data]
  from q have g: "dict_get d ''question'' = JStr q"
    by (simp add: dict_get_def)
  from assms have "HelpRequestResponse_of (resolved_data L now answer_data d) = Inr r"
    by (simp add: f q Let_def)
  then have "hr_question r = str_of (dict_get (resolved_data L now answer_data d) ''question'')"
    by (auto simp: HelpRequestResponse_of_def split: if_splits)
  then have hq: "hr_question r = q"
    by (simp add: dict_get_resolved_data g)
  have kb: "knowledge_base (snd (answer_request L now new_kb_id kb_now request_id answer_data db))
          = AList.update new_kb_id
              (Dict (learned_entry L new_kb_id kb_now q (ans_answer answer_data)))
              (knowledge_base db)"
    by (simp add: f q Let_def kb_entry_data_of_def learned_entry_def)
  show ?thesis
    using d g kb hq by (auto simp: update_fresh)
qed

lemma example_answer_r1:
  "fst (answer_request example_stdlib 7200000000 ''k1'' 7200000000 ''r1'' example_answer
          example_mixed_db) = Inr example_resolved_response"
  by (simp add: answer_request_valid [OF example_mixed_db_app example_mixed_db_lookup(1)
                  example_records_valid(1)])
     (simp add: HelpRequestResponse_of_def valid_help_request_def dict_get_def
        example_record_defs example_resolved_response_def)

theorem answer_request_learns_witness:
  "fst (answer_request example_stdlib 7200000000 ''k1'' 7200000000 ''r1'' example_answer
          example_mixed_db) = Inr example_resolved_response
   \<and> knowledge_base (snd (answer_request example_stdlib 7200000000 ''k1'' 7200000000 ''r1''
                            example_answer example_mixed_db))
     = knowledge_base example_mixed_db
       @ [(''k1'', Dict [(''id'', JStr ''k1''),
                         (''question'', JStr ''Do you do hair transplants?''),
                         (''answer'', JStr ''24 hours notice required''),
                         (''source'', JStr ''learned''),
                         (''created_at'', JStr ''1970-01-01T02:00:00''),
                         (''updated_at'', JStr ''1970-01-01T02:00:00''),
                         (''use_count'', JInt 0)])]"
proof -
  have fresh: "''k1'' \<notin> fst ` set (knowledge_base example_mixed_db)"
    by (simp add: example_mixed_db_def example_db_def)
  from answer_request_learns [OF example_answer_r1] fresh
  have "knowledge_base (snd (answer_request example_stdlib 7200000000 ''k1'' 7200000000 ''r1''
                            example_answer example_mixed_db))
     = knowledge_base example_mixed_db
       @ [(''k1'', Dict (learned_entry example_stdlib ''k1'' 7200000000
                           (hr_question example_resolved_response)
                           (ans_answer example_answer)))]"
    by blast
  with example_answer_r1 show ?thesis
    by (simp add: learned_entry_def example_resolved_response_def example_answer_def
          example_stdlib_def example_isoformat_def)
qed

subsection \<open>The timeout sweep\<close>




lemma find_timed_out_filter:
  "find_timed_out L now data = map (\<lambda>entry. (fst entry, the_dict (snd entry))) (filter (due L now) data)"
  by (induction L now data rule: find_timed_out.induct)
     (auto simp: deadline_passed_def split: jval.splits option.splits)

lemma map_of_filter_distinct:
  "distinct (map fst al) \<Longrightarrow>
   map_of (filter P al) k
     = (case map_of al k of None \<Rightarrow> None | Some v \<Rightarrow> if P (k, v) then Some v else None)"
proof (induction al)
  case Nil
  then show ?case by simp
next
  case (Cons a al)
  obtain k' v' where a: "a = (k', v')" by (cases a)
  from Cons.prems a have notin: "k' \<notin> fst ` set al" and d: "distinct (map fst al)"
    by auto
  from notin have "map_of al k' = None"
    by (simp add: map_of_eq_None_iff)
  with Cons.IH [OF d] a show ?case
    by (auto split: option.splits)
qed

lemma apply_timeouts_db:
  "distinct (map fst tos) \<Longrightarrow>
   map_of (help_requests (fst (apply_timeouts L send_json stamp tos (db, mgr)))) k
     = (case map_of tos k of
          None \<Rightarrow> map_of (help_requests db) k
        | Some d \<Rightarrow> Some (Dict (dict_set d ''status'' (JStr TIMEOUT))))"
proof (induction tos arbitrary: db mgr)
  case Nil
  then show ?case by simp
next
  case (Cons a tos)
  obtain k' d' where a: "a = (k', d')" by (cases a)
  from Cons.prems a have notin: "k' \<notin> fst ` set tos" and d: "distinct (map fst tos)"
    by auto
  from notin have n: "map_of tos k' = None"
    by (simp add: map_of_eq_None_iff)
  show ?case
    using n by (simp add: a Let_def Cons.IH [OF d] update_conv' split: option.splits)
qed








lemma map_of_map_snd:
  "map_of (map (\<lambda>entry. (fst entry, f (snd entry))) al) k = map_option f (map_of al k)"
  by (induction al) auto

lemma due_the_dict: "due L now (k, n) \<Longrightarrow> n = Dict (the_dict n)"
  by (cases n) simp_all

lemma process_timeouts_online:
  "app db \<Longrightarrow>
   process_timeouts L send_json now stamp (db, mgr)
     = apply_timeouts L send_json stamp (find_timed_out L now (help_requests db)) (db, mgr)"
  by (cases "help_requests db") (simp_all add: process_timeouts_def get_db_ref_def)

lemma process_timeouts_map_of:
  assumes "app db" and "distinct (map fst (help_requests db))"
  shows "map_of (help_requests (fst (process_timeouts L send_json now stamp (db, mgr)))) k
           = map_option (\<lambda>n. if due L now (k, n) then timed_out n else n)
               (map_of (help_requests db) k)"
proof -
  let ?sel = "filter (due L now) (help_requests db)"
  let ?tos = "map (\<lambda>entry. (fst entry, the_dict (snd entry))) ?sel"
  from assms(2) have ds: "distinct (map fst ?sel)"
    by (rule distinct_map_filter)
  then have dt: "distinct (map fst ?tos)"
    by (simp add: comp_def)
  have m: "map_of ?tos k = map_option the_dict (map_of ?sel k)"
    by (rule map_of_map_snd)
  show ?thesis
  proof (cases "map_of (help_requests db) k")
    case None
    then show ?thesis
      by (simp add: process_timeouts_online [OF assms(1)] find_timed_out_filter
            apply_timeouts_db [OF dt] m map_of_filter_distinct [OF assms(2)])
  next
    case (Some n)
    show ?thesis
    proof (cases "due L now (k, n)")
      case True
      from due_the_dict [OF True] obtain d where "n = Dict d" by blast
      with Some True show ?thesis
        by (simp add: process_timeouts_online [OF assms(1)] find_timed_out_filter
              apply_timeouts_db [OF dt] m map_of_filter_distinct [OF assms(2)])
    next
      case False
      with Some show ?thesis
        by (simp add: process_timeouts_online [OF assms(1)] find_timed_out_filter
              apply_timeouts_db [OF dt] m map_of_filter_distinct [OF assms(2)])
    qed
  qed
qed




lemma example_due:
  "due example_stdlib 7200000000 (request_id, Dict (example_pending request_id))
     = (request_id \<noteq> ''initialized'')"
  "\<not> due example_stdlib 7200000000 (request_id, Dict (example_resolved request_id))"
  "\<not> due example_stdlib 7200000000 (request_id, Dict (example_timed_out request_id))"
  "\<not> due example_stdlib 0 (request_id, Dict (example_pending request_id))"
  by (simp_all add: deadline_passed_def dict_get_def example_record_defs
        example_fromisoformat_def)

lemma example_mixed_db_distinct: "distinct (map fst (help_requests example_mixed_db))"
  by (simp add: example_mixed_db_def example_db_def)



subsection \<open>The frame of the timeout transition\<close>

lemma timeout_request_found:
  assumes "app db" and "map_of (help_requests db) request_id = Some (Dict d)" and "d \<noteq> []"
  shows "timeout_request request_id db
           = (HelpRequestResponse_of (dict_set d ''status'' (JStr TIMEOUT)),
              db\<lparr>help_requests :=
                   AList.update request_id (Dict (dict_set d ''status'' (JStr TIMEOUT)))
                     (help_requests db)\<rparr>)"
  using assms by (simp add: timeout_request_def get_db_ref_def Let_def)

text \<open>
  C10. The record that the timeout transition writes back, in the sweep for a due
  record and in \<^verbatim>\<open>timeout_request\<close> for any stored record, is the dictionary that was
  read with its status set to \<^verbatim>\<open>timeout\<close>: every other key keeps its value, in
  particular \<^verbatim>\<open>question\<close>, \<^verbatim>\<open>caller_info\<close>, \<^verbatim>\<open>created_at\<close>, \<^verbatim>\<open>timeout_at\<close>,
  \<^verbatim>\<open>answer\<close>, \<^verbatim>\<open>answered_by\<close>, \<^verbatim>\<open>resolved_at\<close> and \<^verbatim>\<open>session_id\<close>, and the last
  three are absent afterwards when they were absent before.
\<close>

theorem timeout_changes_only_status:
  assumes "app db" and "distinct (map fst (help_requests db))"
      and "map_of (help_requests db) request_id = Some (Dict d)"
  shows "(due L now (request_id, Dict d)
            \<longrightarrow> map_of (help_requests
                    (fst (process_timeouts L send_json now stamp (db, mgr)))) request_id
                = Some (Dict (dict_set d ''status'' (JStr TIMEOUT))))
       \<and> (d \<noteq> []
            \<longrightarrow> map_of (help_requests (snd (timeout_request request_id db))) request_id
                = Some (Dict (dict_set d ''status'' (JStr TIMEOUT))))
       \<and> dict_get (dict_set d ''status'' (JStr TIMEOUT)) ''status'' = JStr TIMEOUT
       \<and> (\<forall>k. k \<noteq> ''status''
              \<longrightarrow> map_of (dict_set d ''status'' (JStr TIMEOUT)) k = map_of d k
                \<and> dict_get (dict_set d ''status'' (JStr TIMEOUT)) k = dict_get d k)
       \<and> (\<forall>k \<in> set frame_fields.
              dict_get (dict_set d ''status'' (JStr TIMEOUT)) k = dict_get d k)
       \<and> (dict_get d ''resolved_at'' = JNull \<and> dict_get d ''answer'' = JNull
            \<and> dict_get d ''answered_by'' = JNull
          \<longrightarrow> dict_get (dict_set d ''status'' (JStr TIMEOUT)) ''resolved_at'' = JNull
            \<and> dict_get (dict_set d ''status'' (JStr TIMEOUT)) ''answer'' = JNull
            \<and> dict_get (dict_set d ''status'' (JStr TIMEOUT)) ''answered_by'' = JNull)"
proof (intro conjI impI allI ballI)
  assume "due L now (request_id, Dict d)"
  with assms(3) show "map_of (help_requests
                    (fst (process_timeouts L send_json now stamp (db, mgr)))) request_id
                = Some (Dict (dict_set d ''status'' (JStr TIMEOUT)))"
    by (simp add: process_timeouts_map_of [OF assms(1,2)])
next
  assume "d \<noteq> []"
  from timeout_request_found [OF assms(1,3) this]
  show "map_of (help_requests (snd (timeout_request request_id db))) request_id
                = Some (Dict (dict_set d ''status'' (JStr TIMEOUT)))"
    by (simp add: update_conv')
next
  show "dict_get (dict_set d ''status'' (JStr TIMEOUT)) ''status'' = JStr TIMEOUT"
    by (simp add: dict_get_dict_set)
next
  fix k :: string assume "k \<noteq> ''status''"
  then show "map_of (dict_set d ''status'' (JStr TIMEOUT)) k = map_of d k"
    by (simp add: map_of_dict_set)
next
  fix k :: string assume "k \<noteq> ''status''"
  then show "dict_get (dict_set d ''status'' (JStr TIMEOUT)) k = dict_get d k"
    by (simp add: dict_get_dict_set)
next
  fix k assume "k \<in> set frame_fields"
  then have "k \<noteq> ''status''"
    by (auto simp: frame_fields_def)
  then show "dict_get (dict_set d ''status'' (JStr TIMEOUT)) k = dict_get d k"
    by (simp add: dict_get_dict_set)
next
  assume h: "dict_get d ''resolved_at'' = JNull \<and> dict_get d ''answer'' = JNull
            \<and> dict_get d ''answered_by'' = JNull"
  then show "dict_get (dict_set d ''status'' (JStr TIMEOUT)) ''resolved_at'' = JNull"
    and "dict_get (dict_set d ''status'' (JStr TIMEOUT)) ''answer'' = JNull"
    and "dict_get (dict_set d ''status'' (JStr TIMEOUT)) ''answered_by'' = JNull"
    by (simp_all add: dict_get_dict_set)
qed

theorem timeout_changes_only_status_witness:
  "app example_mixed_db \<and> distinct (map fst (help_requests example_mixed_db))
   \<and> map_of (help_requests example_mixed_db) ''r1'' = Some (Dict (example_pending ''r1''))
   \<and> due example_stdlib 7200000000 (''r1'', Dict (example_pending ''r1''))
   \<and> example_pending ''r1'' \<noteq> []
   \<and> map_of (help_requests
         (fst (process_timeouts example_stdlib (\<lambda>c m. True) 7200000000 (\<lambda>k. 7200000000)
                 (example_mixed_db, example_manager)))) ''r1''
     = Some (Dict (example_timed_out ''r1''))
   \<and> map_of (help_requests (snd (timeout_request ''r1'' example_mixed_db))) ''r1''
     = Some (Dict (example_timed_out ''r1''))
   \<and> dict_get (example_timed_out ''r1'') ''status'' = JStr TIMEOUT
   \<and> dict_get (example_timed_out ''r1'') ''question'' = JStr ''Do you do hair transplants?''
   \<and> dict_get (example_timed_out ''r1'') ''resolved_at'' = JNull
   \<and> dict_get (example_timed_out ''r1'') ''answer'' = JNull
   \<and> dict_get (example_timed_out ''r1'') ''answered_by'' = JNull"
proof -
  have du: "due example_stdlib 7200000000 (''r1'', Dict (example_pending ''r1''))"
    by (simp add: example_due del: due.simps)
  have ne: "example_pending ''r1'' \<noteq> []"
    by (simp add: example_pending_def help_request_data_of_def Let_def)
  have nulls: "dict_get (example_pending ''r1'') ''resolved_at'' = JNull
        \<and> dict_get (example_pending ''r1'') ''answer'' = JNull
        \<and> dict_get (example_pending ''r1'') ''answered_by'' = JNull"
    by (simp add: dict_get_def example_record_defs)
  have q: "dict_get (example_pending ''r1'') ''question'' = JStr ''Do you do hair transplants?''"
    by (simp add: dict_get_def example_record_defs)
  have f: "''question'' \<in> set frame_fields"
    by (simp add: frame_fields_def)
  from timeout_changes_only_status [OF example_mixed_db_app example_mixed_db_distinct
         example_mixed_db_lookup(1), of example_stdlib 7200000000 "\<lambda>c m. True"
         "\<lambda>k. 7200000000" example_manager]
    du ne nulls q f example_mixed_db_app example_mixed_db_distinct example_mixed_db_lookup(1)
  show ?thesis
    unfolding example_timed_out_def by (simp del: due.simps)
qed

subsection \<open>Resolve and sweep on one record\<close>




















end
